theory Spec2Isabelle
  imports Main
begin

section \<open>Go values, errors and panics\<close>

text \<open>
  A Go function of this library either panics or returns. A panic is the value
  \<open>Panic msg\<close>; a normal return is \<open>Return v\<close>, where \<open>v\<close> models the returned
  tuple (a sum for \<open>(payload, err)\<close>, an option for a lone error pointer).
\<close>

datatype 'a result = Panic string | Return 'a

text \<open>
  Values of Go's \<open>error\<close> interface that the operations handle: \<open>errors.New(text)\<close>
  of the standard library, the type error of \<open>encoding/json\<close>, and the errors that
  \<open>net/url\<close>, \<open>net/http\<close>, \<open>time\<close> and the JSON scanner produce (given by the
  environment below).
\<close>

datatype go_error =
    errorString string
  | UnmarshalTypeError string string
  | SyntaxError string
  | url_Error string
  | net_Error string
  | time_ParseError string

definition nil_dereference :: string where
  "nil_dereference = ''runtime error: invalid memory address or nil pointer dereference''"

section \<open>net/url: QueryEscape\<close>

text \<open>
  \<open>url.QueryEscape\<close> works on the bytes of the string (a \<open>char\<close> is a byte).
  \<open>shouldEscape\<close> is the standard library's function in the mode
  \<open>encodeQueryComponent\<close>: letters, digits and \<open>- _ . ~\<close> are kept, every other byte
  is escaped. \<open>escape\<close> writes a space as \<open>+\<close> and any other escaped byte as \<open>%\<close>
  with two upper-case hexadecimal digits.
\<close>

definition upperhex :: string where
  "upperhex = ''0123456789ABCDEF''"

definition shouldEscape :: "char \<Rightarrow> bool" where
  "shouldEscape c =
     (let n = (of_char c :: nat) in
      if (97 \<le> n \<and> n \<le> 122) \<or> (65 \<le> n \<and> n \<le> 90) \<or> (48 \<le> n \<and> n \<le> 57) then False
      else if c = CHR ''-'' \<or> c = CHR ''_'' \<or> c = CHR ''.'' \<or> c = CHR ''~'' then False
      else True)"

definition escape_byte :: "char \<Rightarrow> string" where
  "escape_byte c =
     (if c = CHR '' '' then ''+''
      else if shouldEscape c then
        [CHR ''%'', upperhex ! ((of_char c :: nat) div 16), upperhex ! ((of_char c :: nat) mod 16)]
      else [c])"

definition QueryEscape :: "string \<Rightarrow> string" where
  "QueryEscape s = concat (map escape_byte s)"

section \<open>encoding/json: Marshal of the request bodies\<close>

text \<open>
  Every request body is \<open>json.Marshal(map[string]interface{}{...})\<close>. The values put
  into these maps are strings, \<open>[]string\<close> (\<open>None\<close> is the nil slice), booleans,
  \<open>map[string]string\<close> (\<open>None\<close> is the nil map, the list holds each key once) and
  unsigned integers.
\<close>

datatype iface =
    GoString string
  | GoStrings "string list option"
  | GoBool bool
  | GoStringMap "(string \<times> string) list option"
  | GoUint64 nat

definition hex :: string where
  "hex = ''0123456789abcdef''"

text \<open>
  A JSON string as \<open>encoding/json\<close> writes it (with HTML escaping, the default of
  \<open>json.Marshal\<close>): the quote and the backslash get a backslash; the control bytes
  get their short form (backspace, form feed, newline, carriage return, tab) or a
  backslash, \<open>u00\<close> and two lower-case hexadecimal digits; the bytes \<open><\<close>, \<open>>\<close> and
  \<open>&\<close> are written in that six-byte form too. U+2028 and U+2029 (the bytes E2 80 A8
  and E2 80 A9) are written as backslash, \<open>u2028\<close> and backslash, \<open>u2029\<close>. Other
  bytes from 0x80 on are copied: the strings are taken to be valid UTF-8 (Go replaces
  an invalid byte by the replacement character U+FFFD).
\<close>

definition escape_ascii :: "char \<Rightarrow> string" where
  "escape_ascii b =
     (let n = (of_char b :: nat) in
      if b = CHR 0x5C \<or> b = CHR 0x22 then [CHR 0x5C, b]
      else if n = 8 then [CHR 0x5C, CHR ''b'']
      else if n = 12 then [CHR 0x5C, CHR ''f'']
      else if n = 10 then [CHR 0x5C, CHR ''n'']
      else if n = 13 then [CHR 0x5C, CHR ''r'']
      else if n = 9 then [CHR 0x5C, CHR ''t'']
      else if n < 32 \<or> b = CHR ''<'' \<or> b = CHR ''>'' \<or> b = CHR ''&'' then
        [CHR 0x5C, CHR ''u'', CHR ''0'', CHR ''0'', hex ! (n div 16), hex ! (n mod 16)]
      else [b])"

fun escape_string :: "string \<Rightarrow> string" where
  "escape_string [] = []"
| "escape_string (b # bs) =
     (if b = CHR 0xE2 \<and> take 2 bs = [CHR 0x80, CHR 0xA8] then
        [CHR 0x5C, CHR ''u'', CHR ''2'', CHR ''0'', CHR ''2'', CHR ''8''] @ escape_string (drop 2 bs)
      else if b = CHR 0xE2 \<and> take 2 bs = [CHR 0x80, CHR 0xA9] then
        [CHR 0x5C, CHR ''u'', CHR ''2'', CHR ''0'', CHR ''2'', CHR ''9''] @ escape_string (drop 2 bs)
      else escape_ascii b @ escape_string bs)"

definition quote :: "string \<Rightarrow> string" where
  "quote s = [CHR 0x22] @ escape_string s @ [CHR 0x22]"

fun commas :: "string list \<Rightarrow> string" where
  "commas [] = []"
| "commas [x] = x"
| "commas (x # y # ys) = x @ '','' @ commas (y # ys)"

text \<open>Map keys are written in the byte-wise order of \<open>strings.Compare\<close>.\<close>

fun string_less :: "string \<Rightarrow> string \<Rightarrow> bool" where
  "string_less [] [] = False"
| "string_less [] (y # ys) = True"
| "string_less (x # xs) [] = False"
| "string_less (x # xs) (y # ys) =
     ((of_char x :: nat) < of_char y \<or> (x = y \<and> string_less xs ys))"

fun insert_key :: "string \<times> 'a \<Rightarrow> (string \<times> 'a) list \<Rightarrow> (string \<times> 'a) list" where
  "insert_key kv [] = [kv]"
| "insert_key kv (m # ms) =
     (if string_less (fst kv) (fst m) then kv # m # ms else m # insert_key kv ms)"

definition sort_keys :: "(string \<times> 'a) list \<Rightarrow> (string \<times> 'a) list" where
  "sort_keys ms = foldr insert_key ms []"

function decimal :: "nat \<Rightarrow> string" where
  "decimal n = (if n < 10 then [hex ! n] else decimal (n div 10) @ [hex ! (n mod 10)])"
  by pat_completeness auto
termination
  by (relation "measure id") auto

declare decimal.simps [simp del]

definition object :: "(string \<times> string) list \<Rightarrow> string" where
  "object ms = ''{'' @ commas (map (\<lambda>(k, v). quote k @ '':'' @ v) (sort_keys ms)) @ ''}''"

fun encode :: "iface \<Rightarrow> string" where
  "encode (GoString s) = quote s"
| "encode (GoStrings None) = ''null''"
| "encode (GoStrings (Some xs)) = ''['' @ commas (map quote xs) @ '']''"
| "encode (GoBool b) = (if b then ''true'' else ''false'')"
| "encode (GoStringMap None) = ''null''"
| "encode (GoStringMap (Some m)) = object (map (\<lambda>(k, v). (k, quote v)) m)"
| "encode (GoUint64 n) = decimal n"

text \<open>
  \<open>json.Marshal\<close> returns \<open>([]byte, error)\<close>. For maps of the values above it has no
  failing case, so the error branch that every operation carries is never taken.
\<close>

definition json_Marshal :: "(string \<times> iface) list \<Rightarrow> go_error + string" where
  "json_Marshal m = Inr (object (map (\<lambda>(k, v). (k, encode v)) m))"

section \<open>Options, client and HTTP messages\<close>

text \<open>
  Modelled from the spec: the declaration of \<open>Options\<close> is not in the sources. The
  fields are the ones the operations read; their types follow section 3 of the
  specification (\<open>expand\<close> a list of strings, \<open>None\<close> being Go's nil slice; \<open>filter\<close>,
  \<open>end_before\<close>, \<open>start_after\<close> and the idempotency key strings; \<open>limit\<close> and \<open>page\<close>
  unsigned integers; \<open>disableLogging\<close> a boolean).
\<close>

record Options =
  IdempotencyKey :: string
  Expand :: "string list option"
  Filter :: string
  Limit :: nat
  Page :: nat
  EndBefore :: string
  StartAfter :: string
  DisableLogging :: bool

text \<open>\<open>Options{}\<close>, the zero value.\<close>

definition Options_zero :: Options where
  "Options_zero =
     \<lparr>IdempotencyKey = '''', Expand = None, Filter = '''', Limit = 0, Page = 0,
      EndBefore = '''', StartAfter = '''', DisableLogging = False\<rparr>"

text \<open>
  The first lines of every operation:
  \<^verbatim>\<open>
  opt := Options{}
  if len(options) == 1 { opt = options[0] }
  if len(options) > 1 { panic("The options parameter should only be provided once.") }
  \<close>
\<close>

definition options_once :: string where
  "options_once = ''The options parameter should only be provided once.''"

definition pick_options :: "Options list \<Rightarrow> Options result" where
  "pick_options options =
     (let opt = Options_zero;
          opt = (if length options = 1 then options ! 0 else opt)
      in if length options > 1 then Panic options_once else Return opt)"

text \<open>
  The client \<open>ProcessOut\<close> (its declaration is not in the sources; these are the
  fields the operations read). A pointer to it is an option, \<open>None\<close> the nil pointer.
\<close>

record ProcessOut =
  APIVersion :: string
  projectID :: string
  projectSecret :: string

definition ProcessOut_zero :: ProcessOut where
  "ProcessOut_zero = \<lparr>APIVersion = '''', projectID = '''', projectSecret = ''''\<rparr>"

text \<open>
  An outbound request as \<open>http.NewRequest\<close> builds it and the operations complete it.
  \<open>Header.Set\<close> replaces the value stored under a name. Header names are kept as the
  source writes them. The field \<open>BasicAuth\<close> is what \<open>req.BasicAuth()\<close> reads back from
  the \<open>Authorization\<close> header: the user name and the password of \<open>SetBasicAuth\<close>, \<open>None\<close>
  before.
\<close>

record Request =
  Method :: string
  URL :: string
  Header :: "string \<rightharpoonup> string"
  BasicAuth :: "(string \<times> string) option"
  Body :: string

definition Header_Set :: "string \<Rightarrow> string \<Rightarrow> Request \<Rightarrow> Request" where
  "Header_Set k v req = req\<lparr>Header := (Header req)(k \<mapsto> v)\<rparr>"

text \<open>
  \<open>base64.StdEncoding.EncodeToString\<close>: three bytes are written as four characters of
  the standard alphabet, six bits each; a last group of one or two bytes is filled
  with zero bits and padded with \<open>=\<close>.
\<close>

definition encodeStd :: string where
  "encodeStd = ''ABCDEFGHIJKLMNOPQRSTUVWXYZabcdefghijklmnopqrstuvwxyz0123456789+/''"

fun EncodeToString :: "string \<Rightarrow> string" where
  "EncodeToString [] = []"
| "EncodeToString [a] =
     (let n = (of_char a :: nat) * 65536
      in [encodeStd ! (n div 262144), encodeStd ! (n div 4096 mod 64), CHR ''='', CHR ''=''])"
| "EncodeToString [a, b] =
     (let n = (of_char a :: nat) * 65536 + of_char b * 256
      in [encodeStd ! (n div 262144), encodeStd ! (n div 4096 mod 64),
          encodeStd ! (n div 64 mod 64), CHR ''=''])"
| "EncodeToString (a # b # c # rest) =
     (let n = (of_char a :: nat) * 65536 + of_char b * 256 + of_char c
      in [encodeStd ! (n div 262144), encodeStd ! (n div 4096 mod 64),
          encodeStd ! (n div 64 mod 64), encodeStd ! (n mod 64)] @ EncodeToString rest)"

text \<open>
  \<^verbatim>\<open>
  func (r *Request) SetBasicAuth(username, password string) {
      r.Header.Set("Authorization", "Basic "+basicAuth(username, password))
  }
  func basicAuth(username, password string) string {
      auth := username + ":" + password
      return base64.StdEncoding.EncodeToString([]byte(auth))
  }
  \<close>
\<close>

definition basicAuth :: "string \<Rightarrow> string \<Rightarrow> string" where
  "basicAuth username password = EncodeToString (username @ '':'' @ password)"

definition SetBasicAuth :: "string \<Rightarrow> string \<Rightarrow> Request \<Rightarrow> Request" where
  "SetBasicAuth username password req =
     (Header_Set ''Authorization'' (''Basic '' @ basicAuth username password) req)
       \<lparr>BasicAuth := Some (username, password)\<rparr>"

section \<open>JSON documents and decoding into Go values\<close>

text \<open>
  The JSON scanner is outside the repository. A response body is given as what
  \<open>json.NewDecoder(res.Body)\<close> reads from it: an error (the stream is empty, cannot be
  read, or does not start with a JSON value), or the first JSON value of the stream,
  with the members of an object in the order of the text.
\<close>

datatype json =
    JNull
  | JBool bool
  | JNumber string
  | JString string
  | JArray "json list"
  | JObject "(string \<times> json) list"

record Response =
  StatusCode :: int
  ResponseBody :: "go_error + json"

fun json_kind :: "json \<Rightarrow> string" where
  "json_kind JNull = ''null''"
| "json_kind (JBool b) = ''bool''"
| "json_kind (JNumber n) = ''number''"
| "json_kind (JString s) = ''string''"
| "json_kind (JArray xs) = ''array''"
| "json_kind (JObject ms) = ''object''"

text \<open>
  How \<open>encoding/json\<close> stores a JSON value into a Go value that already holds
  something (the second argument): \<open>null\<close> leaves a string, a boolean or a struct as
  it is and sets a pointer, a slice or a map to nil; a value of the wrong kind is an
  \<open>UnmarshalTypeError\<close>. The decoder reports the first such error after finishing
  the document; the operations drop the payload on any error, so the model stops at
  the first one.
\<close>

fun decode_string :: "json \<Rightarrow> string \<Rightarrow> go_error + string" where
  "decode_string JNull old = Inr old"
| "decode_string (JString s) old = Inr s"
| "decode_string j old = Inl (UnmarshalTypeError (json_kind j) ''string'')"

fun decode_bool :: "json \<Rightarrow> bool \<Rightarrow> go_error + bool" where
  "decode_bool JNull old = Inr old"
| "decode_bool (JBool b) old = Inr b"
| "decode_bool j old = Inl (UnmarshalTypeError (json_kind j) ''bool'')"

text \<open>A pointer field: a non-null value is decoded into the pointee, allocated if nil.\<close>

definition decode_ptr ::
  "(json \<Rightarrow> 'a \<Rightarrow> go_error + 'a) \<Rightarrow> 'a \<Rightarrow> json \<Rightarrow> 'a option \<Rightarrow> go_error + 'a option" where
  "decode_ptr dec zero j old =
     (case j of
        JNull \<Rightarrow> Inr None
      | _ \<Rightarrow> (case dec j (case old of None \<Rightarrow> zero | Some x \<Rightarrow> x) of
                Inl err \<Rightarrow> Inl err
              | Inr x \<Rightarrow> Inr (Some x)))"

fun decode_elements :: "(json \<Rightarrow> go_error + 'a) \<Rightarrow> json list \<Rightarrow> go_error + 'a list" where
  "decode_elements dec [] = Inr []"
| "decode_elements dec (j # js) =
     (case dec j of
        Inl err \<Rightarrow> Inl err
      | Inr x \<Rightarrow> (case decode_elements dec js of
                   Inl err \<Rightarrow> Inl err
                 | Inr xs \<Rightarrow> Inr (x # xs)))"

text \<open>
  A slice field (\<open>None\<close> is the nil slice). Each element is decoded into a fresh
  element: the operations decode into a new response, whose slice is nil.
\<close>

definition decode_slice ::
  "(json \<Rightarrow> go_error + 'a) \<Rightarrow> string \<Rightarrow> json \<Rightarrow> 'a list option \<Rightarrow> go_error + 'a list option" where
  "decode_slice dec ty j old =
     (case j of
        JNull \<Rightarrow> Inr None
      | JArray js \<Rightarrow> (case decode_elements dec js of
                       Inl err \<Rightarrow> Inl err
                     | Inr xs \<Rightarrow> Inr (Some xs))
      | _ \<Rightarrow> Inl (UnmarshalTypeError (json_kind j) ty))"

text \<open>A slice of pointers, \<open>[]*T\<close>: every element starts as the nil pointer.\<close>

definition pointers :: "(json \<Rightarrow> 'a \<Rightarrow> go_error + 'a) \<Rightarrow> 'a \<Rightarrow> string
    \<Rightarrow> json \<Rightarrow> 'a option list option \<Rightarrow> go_error + 'a option list option" where
  "pointers dec zero ty = decode_slice (\<lambda>j. decode_ptr dec zero j None) ty"

text \<open>\<open>m[k] = v\<close> on a map held as the list of its entries.\<close>

fun map_store :: "string \<Rightarrow> string \<Rightarrow> (string \<times> string) list \<Rightarrow> (string \<times> string) list" where
  "map_store k v [] = [(k, v)]"
| "map_store k v (e # es) = (if fst e = k then (k, v) # es else e # map_store k v es)"

fun decode_entries ::
  "(string \<times> json) list \<Rightarrow> (string \<times> string) list \<Rightarrow> go_error + (string \<times> string) list" where
  "decode_entries [] m = Inr m"
| "decode_entries ((k, j) # ms) m =
     (case decode_string j [] of
        Inl err \<Rightarrow> Inl err
      | Inr v \<Rightarrow> decode_entries ms (map_store k v m))"

definition decode_map ::
  "json \<Rightarrow> (string \<times> string) list option \<Rightarrow> go_error + (string \<times> string) list option" where
  "decode_map j old =
     (case j of
        JNull \<Rightarrow> Inr None
      | JObject ms \<Rightarrow> (case decode_entries ms (case old of None \<Rightarrow> [] | Some m \<Rightarrow> m) of
                        Inl err \<Rightarrow> Inl err
                      | Inr m \<Rightarrow> Inr (Some m))
      | _ \<Rightarrow> Inl (UnmarshalTypeError (json_kind j) ''map[string]string''))"

text \<open>
  A struct: the members of the object are stored one after the other, each into the
  field whose JSON name equals the member's name, letter case ignored (ASCII letters;
  the two non-ASCII letters that Go also folds to \<open>K\<close> and \<open>S\<close> are not modelled).
  A member that names no field is skipped.
\<close>

definition upper :: "char \<Rightarrow> char" where
  "upper c = (let n = (of_char c :: nat) in if 97 \<le> n \<and> n \<le> 122 then char_of (n - 32) else c)"

definition names :: "string \<Rightarrow> string \<Rightarrow> bool" where
  "names key field = (map upper key = map upper field)"

fun decode_members ::
  "(string \<Rightarrow> json \<Rightarrow> 's \<Rightarrow> go_error + 's) \<Rightarrow> (string \<times> json) list \<Rightarrow> 's \<Rightarrow> go_error + 's" where
  "decode_members field [] s = Inr s"
| "decode_members field ((k, j) # ms) s =
     (case field k j s of
        Inl err \<Rightarrow> Inl err
      | Inr s' \<Rightarrow> decode_members field ms s')"

definition decode_struct ::
  "(string \<Rightarrow> json \<Rightarrow> 's \<Rightarrow> go_error + 's) \<Rightarrow> string \<Rightarrow> json \<Rightarrow> 's \<Rightarrow> go_error + 's" where
  "decode_struct field ty j s =
     (case j of
        JNull \<Rightarrow> Inr s
      | JObject ms \<Rightarrow> decode_members field ms s
      | _ \<Rightarrow> Inl (UnmarshalTypeError (json_kind j) ty))"

text \<open>Storing a decoded field: \<open>store r upd\<close> is \<open>upd v\<close> when \<open>r\<close> decoded to \<open>v\<close>.\<close>

definition store :: "go_error + 'a \<Rightarrow> ('a \<Rightarrow> 's) \<Rightarrow> go_error + 's" where
  "store r upd = (case r of Inl err \<Rightarrow> Inl err | Inr v \<Rightarrow> Inr (upd v))"

section \<open>Errors of the library\<close>

text \<open>
  Modelled from the spec: the type \<open>Error\<close> and the function \<open>newError\<close> that
  \<^verbatim>\<open>invoice.go\<close> and the tailored-invoice file use are not in the sources. An \<open>Error\<close>
  wraps a Go error and carries the field \<open>Code\<close> that the operations assign;
  \<open>newError\<close> leaves \<open>Code\<close> empty.
\<close>

record Error =
  Err :: go_error
  Code :: string

definition newError :: "go_error \<Rightarrow> Error" where
  "newError err = \<lparr>Err = err, Code = ''''\<rparr>"

text \<open>
  Modelled from the spec: the package \<open>errors\<close> of the library, which \<^verbatim>\<open>refund.go\<close>
  imports, is not in the sources. Its two constructors are kept as free
  constructors: \<open>errors.New(err, code, message)\<close> wraps a Go error, and
  \<open>errors.NewFromResponse(status, code, message)\<close> is the API error that carries the
  server's error code and message and the HTTP status code.
\<close>

datatype errors_Error =
    errors_New go_error string string
  | errors_NewFromResponse int string string

definition use_NewRefund :: string where
  "use_NewRefund = ''Please use the client.NewRefund() method to create a new Refund object''"

section \<open>Resources\<close>

text \<open>
  \<open>time.Time\<close> is an instant, held as the number of nanoseconds after Go's zero time.
\<close>

datatype Time = Time int

definition Time_zero :: Time where
  "Time_zero = Time 0"

text \<open>
  The struct types \<open>Project\<close>, \<open>Customer\<close>, \<open>Subscription\<close> and \<open>CustomerAction\<close> are
  used by the sources but declared outside them. A value of such a type is held as
  the JSON members stored into it; how a JSON value is decoded into it, and which
  values are refused, is given by the environment.
\<close>

datatype Project = Project_of "(string \<times> json) list"
datatype Customer = Customer_of "(string \<times> json) list"
datatype Subscription = Subscription_of "(string \<times> json) list"
datatype CustomerAction = CustomerAction_of "(string \<times> json) list"

record Transaction =
  ID :: string
  Status :: string
  Fee :: string
  Sandbox :: bool
  CreatedAt :: Time

definition Transaction_zero :: Transaction where
  "Transaction_zero =
     \<lparr>Transaction.ID = '''', Status = '''', Fee = '''', Transaction.Sandbox = False,
      Transaction.CreatedAt = Time_zero\<rparr>"

record Invoice =
  ID :: string
  Project :: "Project option"
  Transaction :: "Transaction option"
  Customer :: "Customer option"
  Subscription :: "Subscription option"
  URL :: string
  Name :: string
  Amount :: string
  Currency :: string
  Metadata :: "(string \<times> string) list option"
  RequestEmail :: bool
  RequestShipping :: bool
  ReturnURL :: string
  CancelURL :: string
  Sandbox :: bool
  CreatedAt :: Time

definition Invoice_zero :: Invoice where
  "Invoice_zero =
     \<lparr>Invoice.ID = '''', Project = None, Invoice.Transaction = None, Customer = None,
      Subscription = None, Invoice.URL = '''', Invoice.Name = '''', Invoice.Amount = '''',
      Invoice.Currency = '''', Invoice.Metadata = None, Invoice.RequestEmail = False,
      Invoice.RequestShipping = False, Invoice.ReturnURL = '''', Invoice.CancelURL = '''',
      Invoice.Sandbox = False, Invoice.CreatedAt = Time_zero\<rparr>"

record TailoredInvoice =
  ID :: string
  Name :: string
  Amount :: string
  Currency :: string
  Metadata :: "(string \<times> string) list option"
  RequestEmail :: bool
  RequestShipping :: bool
  ReturnURL :: string
  CancelURL :: string
  Custom :: string
  CreatedAt :: Time

definition TailoredInvoice_zero :: TailoredInvoice where
  "TailoredInvoice_zero =
     \<lparr>TailoredInvoice.ID = '''', TailoredInvoice.Name = '''', TailoredInvoice.Amount = '''',
      TailoredInvoice.Currency = '''', TailoredInvoice.Metadata = None,
      TailoredInvoice.RequestEmail = False, TailoredInvoice.RequestShipping = False,
      TailoredInvoice.ReturnURL = '''', TailoredInvoice.CancelURL = '''', Custom = '''',
      TailoredInvoice.CreatedAt = Time_zero\<rparr>"

record Refund =
  Client :: "ProcessOut option"
  ID :: string
  Transaction :: "Transaction option"
  Reason :: string
  Information :: string
  Amount :: string
  Metadata :: "(string \<times> string) list option"
  Sandbox :: bool
  CreatedAt :: "Time option"

definition Refund_zero :: Refund where
  "Refund_zero =
     \<lparr>Client = None, Refund.ID = '''', Refund.Transaction = None, Reason = '''',
      Information = '''', Refund.Amount = '''', Refund.Metadata = None,
      Refund.Sandbox = False, Refund.CreatedAt = None\<rparr>"

text \<open>The managers hold the client as \<open>p *ProcessOut\<close>.\<close>

record Invoices =
  p :: "ProcessOut option"

record TailoredInvoices =
  p :: "ProcessOut option"

record Transactions =
  p :: "ProcessOut option"

section \<open>The environment of a call\<close>

text \<open>
  What an operation uses and the repository does not define: the package variable
  \<open>Host\<close>; whether \<open>url.Parse\<close> (called by \<open>http.NewRequest\<close>) refuses a URL; what
  \<open>http.DefaultClient.Do\<close> answers to a request (an error, or a response);
  the RFC 3339 parser of \<open>time.Time\<close>; the decoders of the struct types declared
  outside the sources; and \<open>Transaction.SetClient\<close>, which \<open>Refund.SetClient\<close> calls
  and the sources do not contain.
\<close>

record env =
  Host :: string
  url_Parse :: "string \<Rightarrow> go_error option"
  Do :: "Request \<Rightarrow> go_error + Response"
  parse_RFC3339 :: "string \<Rightarrow> Time option"
  decode_Project :: "json \<Rightarrow> Project \<Rightarrow> go_error + Project"
  decode_Customer :: "json \<Rightarrow> Customer \<Rightarrow> go_error + Customer"
  decode_Subscription :: "json \<Rightarrow> Subscription \<Rightarrow> go_error + Subscription"
  decode_CustomerAction :: "json \<Rightarrow> CustomerAction \<Rightarrow> go_error + CustomerAction"
  decode_ProcessOut :: "json \<Rightarrow> ProcessOut \<Rightarrow> go_error + ProcessOut"
  Transaction_SetClient :: "ProcessOut option \<Rightarrow> Transaction \<Rightarrow> Transaction"

text \<open>
  \<open>http.NewRequest(method, url, body)\<close>: the methods used are valid, so it fails
  exactly when the URL does not parse; the new request has no header.
\<close>

definition http_NewRequest :: "env \<Rightarrow> string \<Rightarrow> string \<Rightarrow> string \<Rightarrow> go_error + Request" where
  "http_NewRequest e method url body =
     (case url_Parse e url of
        Some err \<Rightarrow> Inl err
      | None \<Rightarrow> Inr \<lparr>Method = method, Request.URL = url, Header = Map.empty,
                      BasicAuth = None, Body = body\<rparr>)"

section \<open>Decoding the resources\<close>

text \<open>\<open>time.Time\<close> decodes itself (\<open>UnmarshalJSON\<close>) from a JSON string in RFC 3339.\<close>

definition decode_Time :: "env \<Rightarrow> json \<Rightarrow> Time \<Rightarrow> go_error + Time" where
  "decode_Time e j old =
     (case j of
        JNull \<Rightarrow> Inr old
      | JString s \<Rightarrow> (case parse_RFC3339 e s of
                        None \<Rightarrow> Inl (time_ParseError s)
                      | Some t \<Rightarrow> Inr t)
      | _ \<Rightarrow> Inl (errorString ''Time.UnmarshalJSON: input is not a JSON string''))"

definition Transaction_field :: "env \<Rightarrow> string \<Rightarrow> json \<Rightarrow> Transaction \<Rightarrow> go_error + Transaction" where
  "Transaction_field e k j s =
     (if names k ''id'' then store (decode_string j (Transaction.ID s)) (\<lambda>v. s\<lparr>Transaction.ID := v\<rparr>)
      else if names k ''status'' then store (decode_string j (Status s)) (\<lambda>v. s\<lparr>Status := v\<rparr>)
      else if names k ''fee'' then store (decode_string j (Fee s)) (\<lambda>v. s\<lparr>Fee := v\<rparr>)
      else if names k ''sandbox'' then
        store (decode_bool j (Transaction.Sandbox s)) (\<lambda>v. s\<lparr>Transaction.Sandbox := v\<rparr>)
      else if names k ''created_at'' then
        store (decode_Time e j (Transaction.CreatedAt s)) (\<lambda>v. s\<lparr>Transaction.CreatedAt := v\<rparr>)
      else Inr s)"

definition decode_Transaction :: "env \<Rightarrow> json \<Rightarrow> Transaction \<Rightarrow> go_error + Transaction" where
  "decode_Transaction e = decode_struct (Transaction_field e) ''Transaction''"

definition Invoice_field :: "env \<Rightarrow> string \<Rightarrow> json \<Rightarrow> Invoice \<Rightarrow> go_error + Invoice" where
  "Invoice_field e k j s =
     (if names k ''id'' then store (decode_string j (Invoice.ID s)) (\<lambda>v. s\<lparr>Invoice.ID := v\<rparr>)
      else if names k ''project'' then
        store (decode_ptr (decode_Project e) (Project_of []) j (Project s)) (\<lambda>v. s\<lparr>Project := v\<rparr>)
      else if names k ''transaction'' then
        store (decode_ptr (decode_Transaction e) Transaction_zero j (Invoice.Transaction s))
          (\<lambda>v. s\<lparr>Invoice.Transaction := v\<rparr>)
      else if names k ''customer'' then
        store (decode_ptr (decode_Customer e) (Customer_of []) j (Customer s)) (\<lambda>v. s\<lparr>Customer := v\<rparr>)
      else if names k ''subscription'' then
        store (decode_ptr (decode_Subscription e) (Subscription_of []) j (Subscription s))
          (\<lambda>v. s\<lparr>Subscription := v\<rparr>)
      else if names k ''url'' then store (decode_string j (Invoice.URL s)) (\<lambda>v. s\<lparr>Invoice.URL := v\<rparr>)
      else if names k ''name'' then store (decode_string j (Invoice.Name s)) (\<lambda>v. s\<lparr>Invoice.Name := v\<rparr>)
      else if names k ''amount'' then
        store (decode_string j (Invoice.Amount s)) (\<lambda>v. s\<lparr>Invoice.Amount := v\<rparr>)
      else if names k ''currency'' then
        store (decode_string j (Invoice.Currency s)) (\<lambda>v. s\<lparr>Invoice.Currency := v\<rparr>)
      else if names k ''metadata'' then
        store (decode_map j (Invoice.Metadata s)) (\<lambda>v. s\<lparr>Invoice.Metadata := v\<rparr>)
      else if names k ''request_email'' then
        store (decode_bool j (Invoice.RequestEmail s)) (\<lambda>v. s\<lparr>Invoice.RequestEmail := v\<rparr>)
      else if names k ''request_shipping'' then
        store (decode_bool j (Invoice.RequestShipping s)) (\<lambda>v. s\<lparr>Invoice.RequestShipping := v\<rparr>)
      else if names k ''return_url'' then
        store (decode_string j (Invoice.ReturnURL s)) (\<lambda>v. s\<lparr>Invoice.ReturnURL := v\<rparr>)
      else if names k ''cancel_url'' then
        store (decode_string j (Invoice.CancelURL s)) (\<lambda>v. s\<lparr>Invoice.CancelURL := v\<rparr>)
      else if names k ''sandbox'' then
        store (decode_bool j (Invoice.Sandbox s)) (\<lambda>v. s\<lparr>Invoice.Sandbox := v\<rparr>)
      else if names k ''created_at'' then
        store (decode_Time e j (Invoice.CreatedAt s)) (\<lambda>v. s\<lparr>Invoice.CreatedAt := v\<rparr>)
      else Inr s)"

definition decode_Invoice :: "env \<Rightarrow> json \<Rightarrow> Invoice \<Rightarrow> go_error + Invoice" where
  "decode_Invoice e = decode_struct (Invoice_field e) ''Invoice''"

definition TailoredInvoice_field ::
  "env \<Rightarrow> string \<Rightarrow> json \<Rightarrow> TailoredInvoice \<Rightarrow> go_error + TailoredInvoice" where
  "TailoredInvoice_field e k j s =
     (if names k ''id'' then
        store (decode_string j (TailoredInvoice.ID s)) (\<lambda>v. s\<lparr>TailoredInvoice.ID := v\<rparr>)
      else if names k ''name'' then
        store (decode_string j (TailoredInvoice.Name s)) (\<lambda>v. s\<lparr>TailoredInvoice.Name := v\<rparr>)
      else if names k ''amount'' then
        store (decode_string j (TailoredInvoice.Amount s)) (\<lambda>v. s\<lparr>TailoredInvoice.Amount := v\<rparr>)
      else if names k ''currency'' then
        store (decode_string j (TailoredInvoice.Currency s)) (\<lambda>v. s\<lparr>TailoredInvoice.Currency := v\<rparr>)
      else if names k ''metadata'' then
        store (decode_map j (TailoredInvoice.Metadata s)) (\<lambda>v. s\<lparr>TailoredInvoice.Metadata := v\<rparr>)
      else if names k ''request_email'' then
        store (decode_bool j (TailoredInvoice.RequestEmail s))
          (\<lambda>v. s\<lparr>TailoredInvoice.RequestEmail := v\<rparr>)
      else if names k ''request_shipping'' then
        store (decode_bool j (TailoredInvoice.RequestShipping s))
          (\<lambda>v. s\<lparr>TailoredInvoice.RequestShipping := v\<rparr>)
      else if names k ''return_url'' then
        store (decode_string j (TailoredInvoice.ReturnURL s)) (\<lambda>v. s\<lparr>TailoredInvoice.ReturnURL := v\<rparr>)
      else if names k ''cancel_url'' then
        store (decode_string j (TailoredInvoice.CancelURL s)) (\<lambda>v. s\<lparr>TailoredInvoice.CancelURL := v\<rparr>)
      else if names k ''custom'' then store (decode_string j (Custom s)) (\<lambda>v. s\<lparr>Custom := v\<rparr>)
      else if names k ''created_at'' then
        store (decode_Time e j (TailoredInvoice.CreatedAt s)) (\<lambda>v. s\<lparr>TailoredInvoice.CreatedAt := v\<rparr>)
      else Inr s)"

definition decode_TailoredInvoice ::
  "env \<Rightarrow> json \<Rightarrow> TailoredInvoice \<Rightarrow> go_error + TailoredInvoice" where
  "decode_TailoredInvoice e = decode_struct (TailoredInvoice_field e) ''TailoredInvoice''"

text \<open>
  \<open>Refund.Client\<close> is exported and has no JSON tag, so the member named \<open>Client\<close> is
  decoded into it.
\<close>

definition Refund_field :: "env \<Rightarrow> string \<Rightarrow> json \<Rightarrow> Refund \<Rightarrow> go_error + Refund" where
  "Refund_field e k j s =
     (if names k ''Client'' then
        store (decode_ptr (decode_ProcessOut e) ProcessOut_zero j (Client s)) (\<lambda>v. s\<lparr>Client := v\<rparr>)
      else if names k ''id'' then store (decode_string j (Refund.ID s)) (\<lambda>v. s\<lparr>Refund.ID := v\<rparr>)
      else if names k ''transaction'' then
        store (decode_ptr (decode_Transaction e) Transaction_zero j (Refund.Transaction s))
          (\<lambda>v. s\<lparr>Refund.Transaction := v\<rparr>)
      else if names k ''reason'' then store (decode_string j (Reason s)) (\<lambda>v. s\<lparr>Reason := v\<rparr>)
      else if names k ''information'' then
        store (decode_string j (Information s)) (\<lambda>v. s\<lparr>Information := v\<rparr>)
      else if names k ''amount'' then
        store (decode_string j (Refund.Amount s)) (\<lambda>v. s\<lparr>Refund.Amount := v\<rparr>)
      else if names k ''metadata'' then
        store (decode_map j (Refund.Metadata s)) (\<lambda>v. s\<lparr>Refund.Metadata := v\<rparr>)
      else if names k ''sandbox'' then
        store (decode_bool j (Refund.Sandbox s)) (\<lambda>v. s\<lparr>Refund.Sandbox := v\<rparr>)
      else if names k ''created_at'' then
        store (decode_ptr (decode_Time e) Time_zero j (Refund.CreatedAt s))
          (\<lambda>v. s\<lparr>Refund.CreatedAt := v\<rparr>)
      else Inr s)"

definition decode_Refund :: "env \<Rightarrow> json \<Rightarrow> Refund \<Rightarrow> go_error + Refund" where
  "decode_Refund e = decode_struct (Refund_field e) ''Refund''"

text \<open>
  \<^verbatim>\<open>
  func (s *Refund) SetClient(c *ProcessOut) {
      if s == nil { return }
      s.Client = c
      if s.Transaction != nil { s.Transaction.SetClient(c) }
  }
  \<close>
  on the pointer \<open>payload.Refund\<close>; the result is the refund the pointer leads to
  afterwards.
\<close>

definition Refund_SetClient :: "env \<Rightarrow> Refund option \<Rightarrow> ProcessOut option \<Rightarrow> Refund option" where
  "Refund_SetClient e s c =
     (case s of
        None \<Rightarrow> None
      | Some r \<Rightarrow>
          (let r = r\<lparr>Client := c\<rparr>
           in case Refund.Transaction r of
                None \<Rightarrow> Some r
              | Some t \<Rightarrow> Some (r\<lparr>Refund.Transaction := Some (Transaction_SetClient e c t)\<rparr>)))"

section \<open>The response envelopes\<close>

text \<open>
  Every operation declares a local struct \<open>Response\<close> and decodes the body into
  \<open>&Response{}\<close>. The operations of \<open>Transactions\<close> declare \<open>Success\<close> and \<open>Message\<close>
  and, under the resource's JSON name, the payload (record \<open>Reply\<close>); all other
  operations declare \<open>Code\<close> (JSON name \<open>error_type\<close>) as well (record \<open>Response\<close>),
  and those that return no resource declare no payload field (the payload is \<open>unit\<close>
  and no member is decoded into it).
\<close>

record 'a Reply =
  Payload :: 'a
  Success :: bool
  Message :: string

record 'a Response_coded = "'a Reply" +
  Code :: string

definition Reply_field ::
  "string \<Rightarrow> (json \<Rightarrow> 'a \<Rightarrow> go_error + 'a) \<Rightarrow> string \<Rightarrow> json \<Rightarrow> 'a Reply \<Rightarrow> go_error + 'a Reply" where
  "Reply_field key dec k j r =
     (if names k key then store (dec j (Payload r)) (\<lambda>v. r\<lparr>Payload := v\<rparr>)
      else if names k ''success'' then store (decode_bool j (Success r)) (\<lambda>v. r\<lparr>Success := v\<rparr>)
      else if names k ''message'' then store (decode_string j (Message r)) (\<lambda>v. r\<lparr>Message := v\<rparr>)
      else Inr r)"

definition Response_field ::
  "string \<Rightarrow> (json \<Rightarrow> 'a \<Rightarrow> go_error + 'a) \<Rightarrow> string \<Rightarrow> json \<Rightarrow> 'a Response_coded
     \<Rightarrow> go_error + 'a Response_coded" where
  "Response_field key dec k j r =
     (if names k key then store (dec j (Payload r)) (\<lambda>v. r\<lparr>Payload := v\<rparr>)
      else if names k ''success'' then store (decode_bool j (Success r)) (\<lambda>v. r\<lparr>Success := v\<rparr>)
      else if names k ''message'' then store (decode_string j (Message r)) (\<lambda>v. r\<lparr>Message := v\<rparr>)
      else if names k ''error_type'' then store (decode_string j (Code r)) (\<lambda>v. r\<lparr>Code := v\<rparr>)
      else Inr r)"

definition Status_field ::
  "string \<Rightarrow> json \<Rightarrow> unit Response_coded \<Rightarrow> go_error + unit Response_coded" where
  "Status_field k j r =
     (if names k ''success'' then store (decode_bool j (Success r)) (\<lambda>v. r\<lparr>Success := v\<rparr>)
      else if names k ''message'' then store (decode_string j (Message r)) (\<lambda>v. r\<lparr>Message := v\<rparr>)
      else if names k ''error_type'' then store (decode_string j (Code r)) (\<lambda>v. r\<lparr>Code := v\<rparr>)
      else Inr r)"

text \<open>\<open>&Response{}\<close> with the zero payload \<open>z\<close>.\<close>

definition Reply_zero :: "'a \<Rightarrow> 'a Reply" where
  "Reply_zero z = \<lparr>Payload = z, Success = False, Message = ''''\<rparr>"

definition Response_zero :: "'a \<Rightarrow> 'a Response_coded" where
  "Response_zero z = \<lparr>Payload = z, Success = False, Message = '''', Code = ''''\<rparr>"

text \<open>
  \<open>json.NewDecoder(res.Body).Decode(payload)\<close>: the error of the scanner, or the
  response struct after the document has been stored into it.
\<close>

definition Decode ::
  "(string \<Rightarrow> json \<Rightarrow> 'r \<Rightarrow> go_error + 'r) \<Rightarrow> 'r \<Rightarrow> go_error + json \<Rightarrow> go_error + 'r" where
  "Decode field payload body =
     (case body of
        Inl err \<Rightarrow> Inl err
      | Inr j \<Rightarrow> decode_struct field ''Response'' j payload)"

section \<open>The operations of \<^verbatim>\<open>invoice.go\<close>\<close>

text \<open>
  Each definition follows its Go method statement by statement. The result is what
  the method does (a panic, or the returned values) together with the requests handed
  to \<open>http.DefaultClient.Do\<close>, in order. For a method returning \<open>(T, *Error)\<close> the
  returned values are a sum (\<open>Inl\<close> the error, \<open>Inr\<close> the payload, the other one
  being nil); for a method returning \<open>*Error\<close> alone they are an option (\<open>None\<close> is
  nil). A nil pointer that the method dereferences is a run-time panic.
\<close>

text \<open>\<open>Invoices.Authorize\<close>: \<open>POST /invoices/{id}/authorize\<close>.\<close>

definition Invoices_Authorize ::
  "env \<Rightarrow> Invoices \<Rightarrow> Invoice option \<Rightarrow> string \<Rightarrow> Options list \<Rightarrow> (Error option) result \<times> Request list" where
  "Invoices_Authorize e s invoice source options =
     (case pick_options options of
        Panic msg \<Rightarrow> (Panic msg, [])
      | Return opt \<Rightarrow>
     (case json_Marshal
            [(''source'', GoString source),
             (''expand'', GoStrings (Expand opt)),
             (''filter'', GoString (Filter opt))] of
        Inl err \<Rightarrow> (Return (Some (newError err)), [])
      | Inr body \<Rightarrow>
     (case invoice of
        None \<Rightarrow> (Panic nil_dereference, [])
      | Some invoice \<Rightarrow>
     (let path = ''/invoices/'' @ QueryEscape (Invoice.ID invoice) @ ''/authorize''
      in case http_NewRequest e ''POST'' (Host e @ path) body of
           Inl err \<Rightarrow> (Return (Some (newError err)), [])
         | Inr req \<Rightarrow>
     (let req = Header_Set ''Content-Type'' ''application/json'' req
      in case Invoices.p s of
           None \<Rightarrow> (Panic nil_dereference, [])
         | Some c \<Rightarrow>
     (let req = Header_Set ''API-Version'' (APIVersion c) req;
          req = Header_Set ''Accept'' ''application/json'' req;
          req = (if IdempotencyKey opt \<noteq> '''' then
                   Header_Set ''Idempotency-Key'' (IdempotencyKey opt) req else req);
          req = (if DisableLogging opt then Header_Set ''Disable-Logging'' ''true'' req else req);
          req = SetBasicAuth (projectID c) (projectSecret c) req
      in case Do e req of
           Inl err \<Rightarrow> (Return (Some (newError err)), [req])
         | Inr res \<Rightarrow>
     (case Decode Status_field
             (Response_zero ()) (ResponseBody res) of
        Inl err \<Rightarrow> (Return (Some (newError err)), [req])
      | Inr payload \<Rightarrow>
          if \<not> Success payload then
            (Return (Some ((newError (errorString (Message payload)))\<lparr>Error.Code := Code payload\<rparr>)), [req])
          else (Return None, [req]))))))))"

text \<open>\<open>Invoices.Capture\<close>: \<open>POST /invoices/{id}/capture\<close>.\<close>

definition Invoices_Capture ::
  "env \<Rightarrow> Invoices \<Rightarrow> Invoice option \<Rightarrow> string \<Rightarrow> Options list \<Rightarrow> (Error option) result \<times> Request list" where
  "Invoices_Capture e s invoice source options =
     (case pick_options options of
        Panic msg \<Rightarrow> (Panic msg, [])
      | Return opt \<Rightarrow>
     (case json_Marshal
            [(''source'', GoString source),
             (''expand'', GoStrings (Expand opt)),
             (''filter'', GoString (Filter opt))] of
        Inl err \<Rightarrow> (Return (Some (newError err)), [])
      | Inr body \<Rightarrow>
     (case invoice of
        None \<Rightarrow> (Panic nil_dereference, [])
      | Some invoice \<Rightarrow>
     (let path = ''/invoices/'' @ QueryEscape (Invoice.ID invoice) @ ''/capture''
      in case http_NewRequest e ''POST'' (Host e @ path) body of
           Inl err \<Rightarrow> (Return (Some (newError err)), [])
         | Inr req \<Rightarrow>
     (let req = Header_Set ''Content-Type'' ''application/json'' req
      in case Invoices.p s of
           None \<Rightarrow> (Panic nil_dereference, [])
         | Some c \<Rightarrow>
     (let req = Header_Set ''API-Version'' (APIVersion c) req;
          req = Header_Set ''Accept'' ''application/json'' req;
          req = (if IdempotencyKey opt \<noteq> '''' then
                   Header_Set ''Idempotency-Key'' (IdempotencyKey opt) req else req);
          req = (if DisableLogging opt then Header_Set ''Disable-Logging'' ''true'' req else req);
          req = SetBasicAuth (projectID c) (projectSecret c) req
      in case Do e req of
           Inl err \<Rightarrow> (Return (Some (newError err)), [req])
         | Inr res \<Rightarrow>
     (case Decode Status_field
             (Response_zero ()) (ResponseBody res) of
        Inl err \<Rightarrow> (Return (Some (newError err)), [req])
      | Inr payload \<Rightarrow>
          if \<not> Success payload then
            (Return (Some ((newError (errorString (Message payload)))\<lparr>Error.Code := Code payload\<rparr>)), [req])
          else (Return None, [req]))))))))"

text \<open>\<open>Invoices.Customer\<close>: \<open>GET /invoices/{id}/customers\<close>.\<close>

definition Invoices_Customer ::
  "env \<Rightarrow> Invoices \<Rightarrow> Invoice option \<Rightarrow> Options list \<Rightarrow> (Error + Customer) result \<times> Request list" where
  "Invoices_Customer e s invoice options =
     (case pick_options options of
        Panic msg \<Rightarrow> (Panic msg, [])
      | Return opt \<Rightarrow>
     (case json_Marshal
            [(''expand'', GoStrings (Expand opt)),
             (''filter'', GoString (Filter opt))] of
        Inl err \<Rightarrow> (Return (Inl (newError err)), [])
      | Inr body \<Rightarrow>
     (case invoice of
        None \<Rightarrow> (Panic nil_dereference, [])
      | Some invoice \<Rightarrow>
     (let path = ''/invoices/'' @ QueryEscape (Invoice.ID invoice) @ ''/customers''
      in case http_NewRequest e ''GET'' (Host e @ path) body of
           Inl err \<Rightarrow> (Return (Inl (newError err)), [])
         | Inr req \<Rightarrow>
     (let req = Header_Set ''Content-Type'' ''application/json'' req
      in case Invoices.p s of
           None \<Rightarrow> (Panic nil_dereference, [])
         | Some c \<Rightarrow>
     (let req = Header_Set ''API-Version'' (APIVersion c) req;
          req = Header_Set ''Accept'' ''application/json'' req;
          req = (if IdempotencyKey opt \<noteq> '''' then
                   Header_Set ''Idempotency-Key'' (IdempotencyKey opt) req else req);
          req = (if DisableLogging opt then Header_Set ''Disable-Logging'' ''true'' req else req);
          req = SetBasicAuth (projectID c) (projectSecret c) req
      in case Do e req of
           Inl err \<Rightarrow> (Return (Inl (newError err)), [req])
         | Inr res \<Rightarrow>
     (case Decode (Response_field ''customer'' (decode_Customer e))
             (Response_zero (Customer_of [])) (ResponseBody res) of
        Inl err \<Rightarrow> (Return (Inl (newError err)), [req])
      | Inr payload \<Rightarrow>
          if \<not> Success payload then
            (Return (Inl ((newError (errorString (Message payload)))\<lparr>Error.Code := Code payload\<rparr>)), [req])
          else (Return (Inr (Payload payload)), [req]))))))))"

text \<open>\<open>Invoices.AssignCustomer\<close>: \<open>POST /invoices/{id}/customers\<close>.\<close>

definition Invoices_AssignCustomer ::
  "env \<Rightarrow> Invoices \<Rightarrow> Invoice option \<Rightarrow> string \<Rightarrow> Options list \<Rightarrow> (Error + Customer) result \<times> Request list" where
  "Invoices_AssignCustomer e s invoice customerID options =
     (case pick_options options of
        Panic msg \<Rightarrow> (Panic msg, [])
      | Return opt \<Rightarrow>
     (case json_Marshal
            [(''customer_id'', GoString customerID),
             (''expand'', GoStrings (Expand opt)),
             (''filter'', GoString (Filter opt))] of
        Inl err \<Rightarrow> (Return (Inl (newError err)), [])
      | Inr body \<Rightarrow>
     (case invoice of
        None \<Rightarrow> (Panic nil_dereference, [])
      | Some invoice \<Rightarrow>
     (let path = ''/invoices/'' @ QueryEscape (Invoice.ID invoice) @ ''/customers''
      in case http_NewRequest e ''POST'' (Host e @ path) body of
           Inl err \<Rightarrow> (Return (Inl (newError err)), [])
         | Inr req \<Rightarrow>
     (let req = Header_Set ''Content-Type'' ''application/json'' req
      in case Invoices.p s of
           None \<Rightarrow> (Panic nil_dereference, [])
         | Some c \<Rightarrow>
     (let req = Header_Set ''API-Version'' (APIVersion c) req;
          req = Header_Set ''Accept'' ''application/json'' req;
          req = (if IdempotencyKey opt \<noteq> '''' then
                   Header_Set ''Idempotency-Key'' (IdempotencyKey opt) req else req);
          req = (if DisableLogging opt then Header_Set ''Disable-Logging'' ''true'' req else req);
          req = SetBasicAuth (projectID c) (projectSecret c) req
      in case Do e req of
           Inl err \<Rightarrow> (Return (Inl (newError err)), [req])
         | Inr res \<Rightarrow>
     (case Decode (Response_field ''customer'' (decode_Customer e))
             (Response_zero (Customer_of [])) (ResponseBody res) of
        Inl err \<Rightarrow> (Return (Inl (newError err)), [req])
      | Inr payload \<Rightarrow>
          if \<not> Success payload then
            (Return (Inl ((newError (errorString (Message payload)))\<lparr>Error.Code := Code payload\<rparr>)), [req])
          else (Return (Inr (Payload payload)), [req]))))))))"

text \<open>\<open>Invoices.CustomerAction\<close>:
  \<open>GET /invoices/{id}/gateway-configurations/{gatewayConfigurationID}/customer-action\<close>.\<close>

definition Invoices_CustomerAction ::
  "env \<Rightarrow> Invoices \<Rightarrow> Invoice option \<Rightarrow> string \<Rightarrow> Options list \<Rightarrow> (Error + CustomerAction) result \<times> Request list" where
  "Invoices_CustomerAction e s invoice gatewayConfigurationID options =
     (case pick_options options of
        Panic msg \<Rightarrow> (Panic msg, [])
      | Return opt \<Rightarrow>
     (case json_Marshal
            [(''expand'', GoStrings (Expand opt)),
             (''filter'', GoString (Filter opt))] of
        Inl err \<Rightarrow> (Return (Inl (newError err)), [])
      | Inr body \<Rightarrow>
     (case invoice of
        None \<Rightarrow> (Panic nil_dereference, [])
      | Some invoice \<Rightarrow>
     (let path = ''/invoices/'' @ QueryEscape (Invoice.ID invoice) @ ''/gateway-configurations/''
                   @ QueryEscape gatewayConfigurationID @ ''/customer-action''
      in case http_NewRequest e ''GET'' (Host e @ path) body of
           Inl err \<Rightarrow> (Return (Inl (newError err)), [])
         | Inr req \<Rightarrow>
     (let req = Header_Set ''Content-Type'' ''application/json'' req
      in case Invoices.p s of
           None \<Rightarrow> (Panic nil_dereference, [])
         | Some c \<Rightarrow>
     (let req = Header_Set ''API-Version'' (APIVersion c) req;
          req = Header_Set ''Accept'' ''application/json'' req;
          req = (if IdempotencyKey opt \<noteq> '''' then
                   Header_Set ''Idempotency-Key'' (IdempotencyKey opt) req else req);
          req = (if DisableLogging opt then Header_Set ''Disable-Logging'' ''true'' req else req);
          req = SetBasicAuth (projectID c) (projectSecret c) req
      in case Do e req of
           Inl err \<Rightarrow> (Return (Inl (newError err)), [req])
         | Inr res \<Rightarrow>
     (case Decode (Response_field ''customer_action'' (decode_CustomerAction e))
             (Response_zero (CustomerAction_of [])) (ResponseBody res) of
        Inl err \<Rightarrow> (Return (Inl (newError err)), [req])
      | Inr payload \<Rightarrow>
          if \<not> Success payload then
            (Return (Inl ((newError (errorString (Message payload)))\<lparr>Error.Code := Code payload\<rparr>)), [req])
          else (Return (Inr (Payload payload)), [req]))))))))"

text \<open>\<open>Invoices.Transaction\<close>: \<open>GET /invoices/{id}/transactions\<close>.\<close>

definition Invoices_Transaction ::
  "env \<Rightarrow> Invoices \<Rightarrow> Invoice option \<Rightarrow> Options list \<Rightarrow> (Error + Transaction) result \<times> Request list" where
  "Invoices_Transaction e s invoice options =
     (case pick_options options of
        Panic msg \<Rightarrow> (Panic msg, [])
      | Return opt \<Rightarrow>
     (case json_Marshal
            [(''expand'', GoStrings (Expand opt)),
             (''filter'', GoString (Filter opt))] of
        Inl err \<Rightarrow> (Return (Inl (newError err)), [])
      | Inr body \<Rightarrow>
     (case invoice of
        None \<Rightarrow> (Panic nil_dereference, [])
      | Some invoice \<Rightarrow>
     (let path = ''/invoices/'' @ QueryEscape (Invoice.ID invoice) @ ''/transactions''
      in case http_NewRequest e ''GET'' (Host e @ path) body of
           Inl err \<Rightarrow> (Return (Inl (newError err)), [])
         | Inr req \<Rightarrow>
     (let req = Header_Set ''Content-Type'' ''application/json'' req
      in case Invoices.p s of
           None \<Rightarrow> (Panic nil_dereference, [])
         | Some c \<Rightarrow>
     (let req = Header_Set ''API-Version'' (APIVersion c) req;
          req = Header_Set ''Accept'' ''application/json'' req;
          req = (if IdempotencyKey opt \<noteq> '''' then
                   Header_Set ''Idempotency-Key'' (IdempotencyKey opt) req else req);
          req = (if DisableLogging opt then Header_Set ''Disable-Logging'' ''true'' req else req);
          req = SetBasicAuth (projectID c) (projectSecret c) req
      in case Do e req of
           Inl err \<Rightarrow> (Return (Inl (newError err)), [req])
         | Inr res \<Rightarrow>
     (case Decode (Response_field ''transaction'' (decode_Transaction e))
             (Response_zero Transaction_zero) (ResponseBody res) of
        Inl err \<Rightarrow> (Return (Inl (newError err)), [req])
      | Inr payload \<Rightarrow>
          if \<not> Success payload then
            (Return (Inl ((newError (errorString (Message payload)))\<lparr>Error.Code := Code payload\<rparr>)), [req])
          else (Return (Inr (Payload payload)), [req]))))))))"

text \<open>\<open>Invoices.Void\<close>: \<open>POST /invoices/{id}/void\<close>.\<close>

definition Invoices_Void ::
  "env \<Rightarrow> Invoices \<Rightarrow> Invoice option \<Rightarrow> Options list \<Rightarrow> (Error option) result \<times> Request list" where
  "Invoices_Void e s invoice options =
     (case pick_options options of
        Panic msg \<Rightarrow> (Panic msg, [])
      | Return opt \<Rightarrow>
     (case json_Marshal
            [(''expand'', GoStrings (Expand opt)),
             (''filter'', GoString (Filter opt))] of
        Inl err \<Rightarrow> (Return (Some (newError err)), [])
      | Inr body \<Rightarrow>
     (case invoice of
        None \<Rightarrow> (Panic nil_dereference, [])
      | Some invoice \<Rightarrow>
     (let path = ''/invoices/'' @ QueryEscape (Invoice.ID invoice) @ ''/void''
      in case http_NewRequest e ''POST'' (Host e @ path) body of
           Inl err \<Rightarrow> (Return (Some (newError err)), [])
         | Inr req \<Rightarrow>
     (let req = Header_Set ''Content-Type'' ''application/json'' req
      in case Invoices.p s of
           None \<Rightarrow> (Panic nil_dereference, [])
         | Some c \<Rightarrow>
     (let req = Header_Set ''API-Version'' (APIVersion c) req;
          req = Header_Set ''Accept'' ''application/json'' req;
          req = (if IdempotencyKey opt \<noteq> '''' then
                   Header_Set ''Idempotency-Key'' (IdempotencyKey opt) req else req);
          req = (if DisableLogging opt then Header_Set ''Disable-Logging'' ''true'' req else req);
          req = SetBasicAuth (projectID c) (projectSecret c) req
      in case Do e req of
           Inl err \<Rightarrow> (Return (Some (newError err)), [req])
         | Inr res \<Rightarrow>
     (case Decode Status_field
             (Response_zero ()) (ResponseBody res) of
        Inl err \<Rightarrow> (Return (Some (newError err)), [req])
      | Inr payload \<Rightarrow>
          if \<not> Success payload then
            (Return (Some ((newError (errorString (Message payload)))\<lparr>Error.Code := Code payload\<rparr>)), [req])
          else (Return None, [req]))))))))"

text \<open>\<open>Invoices.All\<close>: \<open>GET /invoices\<close>. The payload is a slice of pointers.\<close>

definition Invoices_All ::
  "env \<Rightarrow> Invoices \<Rightarrow> Options list \<Rightarrow> (Error + Invoice option list option) result \<times> Request list" where
  "Invoices_All e s options =
     (case pick_options options of
        Panic msg \<Rightarrow> (Panic msg, [])
      | Return opt \<Rightarrow>
     (case json_Marshal
            [(''expand'', GoStrings (Expand opt)),
             (''filter'', GoString (Filter opt))] of
        Inl err \<Rightarrow> (Return (Inl (newError err)), [])
      | Inr body \<Rightarrow>
     (let path = ''/invoices''
      in case http_NewRequest e ''GET'' (Host e @ path) body of
           Inl err \<Rightarrow> (Return (Inl (newError err)), [])
         | Inr req \<Rightarrow>
     (let req = Header_Set ''Content-Type'' ''application/json'' req
      in case Invoices.p s of
           None \<Rightarrow> (Panic nil_dereference, [])
         | Some c \<Rightarrow>
     (let req = Header_Set ''API-Version'' (APIVersion c) req;
          req = Header_Set ''Accept'' ''application/json'' req;
          req = (if IdempotencyKey opt \<noteq> '''' then
                   Header_Set ''Idempotency-Key'' (IdempotencyKey opt) req else req);
          req = (if DisableLogging opt then Header_Set ''Disable-Logging'' ''true'' req else req);
          req = SetBasicAuth (projectID c) (projectSecret c) req
      in case Do e req of
           Inl err \<Rightarrow> (Return (Inl (newError err)), [req])
         | Inr res \<Rightarrow>
     (case Decode (Response_field ''invoices'' (pointers (decode_Invoice e) Invoice_zero ''[]*Invoice''))
             (Response_zero None) (ResponseBody res) of
        Inl err \<Rightarrow> (Return (Inl (newError err)), [req])
      | Inr payload \<Rightarrow>
          if \<not> Success payload then
            (Return (Inl ((newError (errorString (Message payload)))\<lparr>Error.Code := Code payload\<rparr>)), [req])
          else (Return (Inr (Payload payload)), [req])))))))"

text \<open>\<open>Invoices.Create\<close>: \<open>POST /invoices\<close>.\<close>

definition Invoices_Create ::
  "env \<Rightarrow> Invoices \<Rightarrow> Invoice option \<Rightarrow> Options list \<Rightarrow> (Error + Invoice) result \<times> Request list" where
  "Invoices_Create e s invoice options =
     (case pick_options options of
        Panic msg \<Rightarrow> (Panic msg, [])
      | Return opt \<Rightarrow>
     (case invoice of
        None \<Rightarrow> (Panic nil_dereference, [])
      | Some invoice \<Rightarrow>
     (case json_Marshal
            [(''name'', GoString (Invoice.Name invoice)),
             (''amount'', GoString (Invoice.Amount invoice)),
             (''currency'', GoString (Invoice.Currency invoice)),
             (''metadata'', GoStringMap (Invoice.Metadata invoice)),
             (''request_email'', GoBool (Invoice.RequestEmail invoice)),
             (''request_shipping'', GoBool (Invoice.RequestShipping invoice)),
             (''return_url'', GoString (Invoice.ReturnURL invoice)),
             (''cancel_url'', GoString (Invoice.CancelURL invoice)),
             (''expand'', GoStrings (Expand opt)),
             (''filter'', GoString (Filter opt))] of
        Inl err \<Rightarrow> (Return (Inl (newError err)), [])
      | Inr body \<Rightarrow>
     (let path = ''/invoices''
      in case http_NewRequest e ''POST'' (Host e @ path) body of
           Inl err \<Rightarrow> (Return (Inl (newError err)), [])
         | Inr req \<Rightarrow>
     (let req = Header_Set ''Content-Type'' ''application/json'' req
      in case Invoices.p s of
           None \<Rightarrow> (Panic nil_dereference, [])
         | Some c \<Rightarrow>
     (let req = Header_Set ''API-Version'' (APIVersion c) req;
          req = Header_Set ''Accept'' ''application/json'' req;
          req = (if IdempotencyKey opt \<noteq> '''' then
                   Header_Set ''Idempotency-Key'' (IdempotencyKey opt) req else req);
          req = (if DisableLogging opt then Header_Set ''Disable-Logging'' ''true'' req else req);
          req = SetBasicAuth (projectID c) (projectSecret c) req
      in case Do e req of
           Inl err \<Rightarrow> (Return (Inl (newError err)), [req])
         | Inr res \<Rightarrow>
     (case Decode (Response_field ''invoice'' (decode_Invoice e))
             (Response_zero Invoice_zero) (ResponseBody res) of
        Inl err \<Rightarrow> (Return (Inl (newError err)), [req])
      | Inr payload \<Rightarrow>
          if \<not> Success payload then
            (Return (Inl ((newError (errorString (Message payload)))\<lparr>Error.Code := Code payload\<rparr>)), [req])
          else (Return (Inr (Payload payload)), [req]))))))))"

text \<open>\<open>Invoices.Find\<close>: \<open>GET /invoices/{invoiceID}\<close>.\<close>

definition Invoices_Find ::
  "env \<Rightarrow> Invoices \<Rightarrow> string \<Rightarrow> Options list \<Rightarrow> (Error + Invoice) result \<times> Request list" where
  "Invoices_Find e s invoiceID options =
     (case pick_options options of
        Panic msg \<Rightarrow> (Panic msg, [])
      | Return opt \<Rightarrow>
     (case json_Marshal
            [(''expand'', GoStrings (Expand opt)),
             (''filter'', GoString (Filter opt))] of
        Inl err \<Rightarrow> (Return (Inl (newError err)), [])
      | Inr body \<Rightarrow>
     (let path = ''/invoices/'' @ QueryEscape invoiceID @ ''''
      in case http_NewRequest e ''GET'' (Host e @ path) body of
           Inl err \<Rightarrow> (Return (Inl (newError err)), [])
         | Inr req \<Rightarrow>
     (let req = Header_Set ''Content-Type'' ''application/json'' req
      in case Invoices.p s of
           None \<Rightarrow> (Panic nil_dereference, [])
         | Some c \<Rightarrow>
     (let req = Header_Set ''API-Version'' (APIVersion c) req;
          req = Header_Set ''Accept'' ''application/json'' req;
          req = (if IdempotencyKey opt \<noteq> '''' then
                   Header_Set ''Idempotency-Key'' (IdempotencyKey opt) req else req);
          req = (if DisableLogging opt then Header_Set ''Disable-Logging'' ''true'' req else req);
          req = SetBasicAuth (projectID c) (projectSecret c) req
      in case Do e req of
           Inl err \<Rightarrow> (Return (Inl (newError err)), [req])
         | Inr res \<Rightarrow>
     (case Decode (Response_field ''invoice'' (decode_Invoice e))
             (Response_zero Invoice_zero) (ResponseBody res) of
        Inl err \<Rightarrow> (Return (Inl (newError err)), [req])
      | Inr payload \<Rightarrow>
          if \<not> Success payload then
            (Return (Inl ((newError (errorString (Message payload)))\<lparr>Error.Code := Code payload\<rparr>)), [req])
          else (Return (Inr (Payload payload)), [req])))))))"

section \<open>The operations on tailored invoices\<close>

text \<open>\<open>TailoredInvoices.Invoice\<close>: \<open>POST /tailored-invoices/{id}/invoices\<close>.\<close>

definition TailoredInvoices_Invoice ::
  "env \<Rightarrow> TailoredInvoices \<Rightarrow> TailoredInvoice option \<Rightarrow> Options list \<Rightarrow> (Error + Invoice) result \<times> Request list" where
  "TailoredInvoices_Invoice e s tailoredInvoice options =
     (case pick_options options of
        Panic msg \<Rightarrow> (Panic msg, [])
      | Return opt \<Rightarrow>
     (case json_Marshal
            [(''expand'', GoStrings (Expand opt)),
             (''filter'', GoString (Filter opt))] of
        Inl err \<Rightarrow> (Return (Inl (newError err)), [])
      | Inr body \<Rightarrow>
     (case tailoredInvoice of
        None \<Rightarrow> (Panic nil_dereference, [])
      | Some tailoredInvoice \<Rightarrow>
     (let path = ''/tailored-invoices/'' @ QueryEscape (TailoredInvoice.ID tailoredInvoice) @ ''/invoices''
      in case http_NewRequest e ''POST'' (Host e @ path) body of
           Inl err \<Rightarrow> (Return (Inl (newError err)), [])
         | Inr req \<Rightarrow>
     (let req = Header_Set ''Content-Type'' ''application/json'' req
      in case TailoredInvoices.p s of
           None \<Rightarrow> (Panic nil_dereference, [])
         | Some c \<Rightarrow>
     (let req = Header_Set ''API-Version'' (APIVersion c) req;
          req = Header_Set ''Accept'' ''application/json'' req;
          req = (if IdempotencyKey opt \<noteq> '''' then
                   Header_Set ''Idempotency-Key'' (IdempotencyKey opt) req else req);
          req = (if DisableLogging opt then Header_Set ''Disable-Logging'' ''true'' req else req);
          req = SetBasicAuth (projectID c) (projectSecret c) req
      in case Do e req of
           Inl err \<Rightarrow> (Return (Inl (newError err)), [req])
         | Inr res \<Rightarrow>
     (case Decode (Response_field ''invoice'' (decode_Invoice e))
             (Response_zero Invoice_zero) (ResponseBody res) of
        Inl err \<Rightarrow> (Return (Inl (newError err)), [req])
      | Inr payload \<Rightarrow>
          if \<not> Success payload then
            (Return (Inl ((newError (errorString (Message payload)))\<lparr>Error.Code := Code payload\<rparr>)), [req])
          else (Return (Inr (Payload payload)), [req]))))))))"

text \<open>\<open>TailoredInvoices.All\<close>: \<open>GET /tailored-invoices\<close>.\<close>

definition TailoredInvoices_All ::
  "env \<Rightarrow> TailoredInvoices \<Rightarrow> Options list \<Rightarrow> (Error + TailoredInvoice option list option) result \<times> Request list" where
  "TailoredInvoices_All e s options =
     (case pick_options options of
        Panic msg \<Rightarrow> (Panic msg, [])
      | Return opt \<Rightarrow>
     (case json_Marshal
            [(''expand'', GoStrings (Expand opt)),
             (''filter'', GoString (Filter opt))] of
        Inl err \<Rightarrow> (Return (Inl (newError err)), [])
      | Inr body \<Rightarrow>
     (let path = ''/tailored-invoices''
      in case http_NewRequest e ''GET'' (Host e @ path) body of
           Inl err \<Rightarrow> (Return (Inl (newError err)), [])
         | Inr req \<Rightarrow>
     (let req = Header_Set ''Content-Type'' ''application/json'' req
      in case TailoredInvoices.p s of
           None \<Rightarrow> (Panic nil_dereference, [])
         | Some c \<Rightarrow>
     (let req = Header_Set ''API-Version'' (APIVersion c) req;
          req = Header_Set ''Accept'' ''application/json'' req;
          req = (if IdempotencyKey opt \<noteq> '''' then
                   Header_Set ''Idempotency-Key'' (IdempotencyKey opt) req else req);
          req = (if DisableLogging opt then Header_Set ''Disable-Logging'' ''true'' req else req);
          req = SetBasicAuth (projectID c) (projectSecret c) req
      in case Do e req of
           Inl err \<Rightarrow> (Return (Inl (newError err)), [req])
         | Inr res \<Rightarrow>
     (case Decode (Response_field ''tailored_invoices'' (pointers (decode_TailoredInvoice e) TailoredInvoice_zero ''[]*TailoredInvoice''))
             (Response_zero None) (ResponseBody res) of
        Inl err \<Rightarrow> (Return (Inl (newError err)), [req])
      | Inr payload \<Rightarrow>
          if \<not> Success payload then
            (Return (Inl ((newError (errorString (Message payload)))\<lparr>Error.Code := Code payload\<rparr>)), [req])
          else (Return (Inr (Payload payload)), [req])))))))"

text \<open>\<open>TailoredInvoices.Create\<close>: \<open>POST /tailored-invoices\<close>.\<close>

definition TailoredInvoices_Create ::
  "env \<Rightarrow> TailoredInvoices \<Rightarrow> TailoredInvoice option \<Rightarrow> Options list \<Rightarrow> (Error + TailoredInvoice) result \<times> Request list" where
  "TailoredInvoices_Create e s tailoredInvoice options =
     (case pick_options options of
        Panic msg \<Rightarrow> (Panic msg, [])
      | Return opt \<Rightarrow>
     (case tailoredInvoice of
        None \<Rightarrow> (Panic nil_dereference, [])
      | Some tailoredInvoice \<Rightarrow>
     (case json_Marshal
            [(''name'', GoString (TailoredInvoice.Name tailoredInvoice)),
             (''amount'', GoString (TailoredInvoice.Amount tailoredInvoice)),
             (''currency'', GoString (TailoredInvoice.Currency tailoredInvoice)),
             (''metadata'', GoStringMap (TailoredInvoice.Metadata tailoredInvoice)),
             (''request_email'', GoBool (TailoredInvoice.RequestEmail tailoredInvoice)),
             (''request_shipping'', GoBool (TailoredInvoice.RequestShipping tailoredInvoice)),
             (''return_url'', GoString (TailoredInvoice.ReturnURL tailoredInvoice)),
             (''cancel_url'', GoString (TailoredInvoice.CancelURL tailoredInvoice)),
             (''expand'', GoStrings (Expand opt)),
             (''filter'', GoString (Filter opt))] of
        Inl err \<Rightarrow> (Return (Inl (newError err)), [])
      | Inr body \<Rightarrow>
     (let path = ''/tailored-invoices''
      in case http_NewRequest e ''POST'' (Host e @ path) body of
           Inl err \<Rightarrow> (Return (Inl (newError err)), [])
         | Inr req \<Rightarrow>
     (let req = Header_Set ''Content-Type'' ''application/json'' req
      in case TailoredInvoices.p s of
           None \<Rightarrow> (Panic nil_dereference, [])
         | Some c \<Rightarrow>
     (let req = Header_Set ''API-Version'' (APIVersion c) req;
          req = Header_Set ''Accept'' ''application/json'' req;
          req = (if IdempotencyKey opt \<noteq> '''' then
                   Header_Set ''Idempotency-Key'' (IdempotencyKey opt) req else req);
          req = (if DisableLogging opt then Header_Set ''Disable-Logging'' ''true'' req else req);
          req = SetBasicAuth (projectID c) (projectSecret c) req
      in case Do e req of
           Inl err \<Rightarrow> (Return (Inl (newError err)), [req])
         | Inr res \<Rightarrow>
     (case Decode (Response_field ''tailored_invoice'' (decode_TailoredInvoice e))
             (Response_zero TailoredInvoice_zero) (ResponseBody res) of
        Inl err \<Rightarrow> (Return (Inl (newError err)), [req])
      | Inr payload \<Rightarrow>
          if \<not> Success payload then
            (Return (Inl ((newError (errorString (Message payload)))\<lparr>Error.Code := Code payload\<rparr>)), [req])
          else (Return (Inr (Payload payload)), [req]))))))))"

text \<open>\<open>TailoredInvoices.Find\<close>: \<open>GET /tailored-invoices/{tailoredInvoiceID}\<close>.\<close>

definition TailoredInvoices_Find ::
  "env \<Rightarrow> TailoredInvoices \<Rightarrow> string \<Rightarrow> Options list \<Rightarrow> (Error + TailoredInvoice) result \<times> Request list" where
  "TailoredInvoices_Find e s tailoredInvoiceID options =
     (case pick_options options of
        Panic msg \<Rightarrow> (Panic msg, [])
      | Return opt \<Rightarrow>
     (case json_Marshal
            [(''expand'', GoStrings (Expand opt)),
             (''filter'', GoString (Filter opt))] of
        Inl err \<Rightarrow> (Return (Inl (newError err)), [])
      | Inr body \<Rightarrow>
     (let path = ''/tailored-invoices/'' @ QueryEscape tailoredInvoiceID @ ''''
      in case http_NewRequest e ''GET'' (Host e @ path) body of
           Inl err \<Rightarrow> (Return (Inl (newError err)), [])
         | Inr req \<Rightarrow>
     (let req = Header_Set ''Content-Type'' ''application/json'' req
      in case TailoredInvoices.p s of
           None \<Rightarrow> (Panic nil_dereference, [])
         | Some c \<Rightarrow>
     (let req = Header_Set ''API-Version'' (APIVersion c) req;
          req = Header_Set ''Accept'' ''application/json'' req;
          req = (if IdempotencyKey opt \<noteq> '''' then
                   Header_Set ''Idempotency-Key'' (IdempotencyKey opt) req else req);
          req = (if DisableLogging opt then Header_Set ''Disable-Logging'' ''true'' req else req);
          req = SetBasicAuth (projectID c) (projectSecret c) req
      in case Do e req of
           Inl err \<Rightarrow> (Return (Inl (newError err)), [req])
         | Inr res \<Rightarrow>
     (case Decode (Response_field ''tailored_invoice'' (decode_TailoredInvoice e))
             (Response_zero TailoredInvoice_zero) (ResponseBody res) of
        Inl err \<Rightarrow> (Return (Inl (newError err)), [req])
      | Inr payload \<Rightarrow>
          if \<not> Success payload then
            (Return (Inl ((newError (errorString (Message payload)))\<lparr>Error.Code := Code payload\<rparr>)), [req])
          else (Return (Inr (Payload payload)), [req])))))))"

text \<open>\<open>TailoredInvoices.Save\<close>: \<open>PUT /tailored-invoices/{id}\<close>.\<close>

definition TailoredInvoices_Save ::
  "env \<Rightarrow> TailoredInvoices \<Rightarrow> TailoredInvoice option \<Rightarrow> Options list \<Rightarrow> (Error + TailoredInvoice) result \<times> Request list" where
  "TailoredInvoices_Save e s tailoredInvoice options =
     (case pick_options options of
        Panic msg \<Rightarrow> (Panic msg, [])
      | Return opt \<Rightarrow>
     (case tailoredInvoice of
        None \<Rightarrow> (Panic nil_dereference, [])
      | Some tailoredInvoice \<Rightarrow>
     (case json_Marshal
            [(''name'', GoString (TailoredInvoice.Name tailoredInvoice)),
             (''amount'', GoString (TailoredInvoice.Amount tailoredInvoice)),
             (''currency'', GoString (TailoredInvoice.Currency tailoredInvoice)),
             (''metadata'', GoStringMap (TailoredInvoice.Metadata tailoredInvoice)),
             (''request_email'', GoBool (TailoredInvoice.RequestEmail tailoredInvoice)),
             (''request_shipping'', GoBool (TailoredInvoice.RequestShipping tailoredInvoice)),
             (''return_url'', GoString (TailoredInvoice.ReturnURL tailoredInvoice)),
             (''cancel_url'', GoString (TailoredInvoice.CancelURL tailoredInvoice)),
             (''expand'', GoStrings (Expand opt)),
             (''filter'', GoString (Filter opt))] of
        Inl err \<Rightarrow> (Return (Inl (newError err)), [])
      | Inr body \<Rightarrow>
     (let path = ''/tailored-invoices/'' @ QueryEscape (TailoredInvoice.ID tailoredInvoice) @ ''''
      in case http_NewRequest e ''PUT'' (Host e @ path) body of
           Inl err \<Rightarrow> (Return (Inl (newError err)), [])
         | Inr req \<Rightarrow>
     (let req = Header_Set ''Content-Type'' ''application/json'' req
      in case TailoredInvoices.p s of
           None \<Rightarrow> (Panic nil_dereference, [])
         | Some c \<Rightarrow>
     (let req = Header_Set ''API-Version'' (APIVersion c) req;
          req = Header_Set ''Accept'' ''application/json'' req;
          req = (if IdempotencyKey opt \<noteq> '''' then
                   Header_Set ''Idempotency-Key'' (IdempotencyKey opt) req else req);
          req = (if DisableLogging opt then Header_Set ''Disable-Logging'' ''true'' req else req);
          req = SetBasicAuth (projectID c) (projectSecret c) req
      in case Do e req of
           Inl err \<Rightarrow> (Return (Inl (newError err)), [req])
         | Inr res \<Rightarrow>
     (case Decode (Response_field ''tailored_invoice'' (decode_TailoredInvoice e))
             (Response_zero TailoredInvoice_zero) (ResponseBody res) of
        Inl err \<Rightarrow> (Return (Inl (newError err)), [req])
      | Inr payload \<Rightarrow>
          if \<not> Success payload then
            (Return (Inl ((newError (errorString (Message payload)))\<lparr>Error.Code := Code payload\<rparr>)), [req])
          else (Return (Inr (Payload payload)), [req]))))))))"

text \<open>\<open>TailoredInvoices.Delete\<close>: \<open>DELETE /tailored-invoices/{id}\<close>.\<close>

definition TailoredInvoices_Delete ::
  "env \<Rightarrow> TailoredInvoices \<Rightarrow> TailoredInvoice option \<Rightarrow> Options list \<Rightarrow> (Error option) result \<times> Request list" where
  "TailoredInvoices_Delete e s tailoredInvoice options =
     (case pick_options options of
        Panic msg \<Rightarrow> (Panic msg, [])
      | Return opt \<Rightarrow>
     (case json_Marshal
            [(''expand'', GoStrings (Expand opt)),
             (''filter'', GoString (Filter opt))] of
        Inl err \<Rightarrow> (Return (Some (newError err)), [])
      | Inr body \<Rightarrow>
     (case tailoredInvoice of
        None \<Rightarrow> (Panic nil_dereference, [])
      | Some tailoredInvoice \<Rightarrow>
     (let path = ''/tailored-invoices/'' @ QueryEscape (TailoredInvoice.ID tailoredInvoice) @ ''''
      in case http_NewRequest e ''DELETE'' (Host e @ path) body of
           Inl err \<Rightarrow> (Return (Some (newError err)), [])
         | Inr req \<Rightarrow>
     (let req = Header_Set ''Content-Type'' ''application/json'' req
      in case TailoredInvoices.p s of
           None \<Rightarrow> (Panic nil_dereference, [])
         | Some c \<Rightarrow>
     (let req = Header_Set ''API-Version'' (APIVersion c) req;
          req = Header_Set ''Accept'' ''application/json'' req;
          req = (if IdempotencyKey opt \<noteq> '''' then
                   Header_Set ''Idempotency-Key'' (IdempotencyKey opt) req else req);
          req = (if DisableLogging opt then Header_Set ''Disable-Logging'' ''true'' req else req);
          req = SetBasicAuth (projectID c) (projectSecret c) req
      in case Do e req of
           Inl err \<Rightarrow> (Return (Some (newError err)), [req])
         | Inr res \<Rightarrow>
     (case Decode Status_field
             (Response_zero ()) (ResponseBody res) of
        Inl err \<Rightarrow> (Return (Some (newError err)), [req])
      | Inr payload \<Rightarrow>
          if \<not> Success payload then
            (Return (Some ((newError (errorString (Message payload)))\<lparr>Error.Code := Code payload\<rparr>)), [req])
          else (Return None, [req]))))))))"

section \<open>The operations of \<^verbatim>\<open>refund.go\<close>\<close>

text \<open>
  Both methods start with \<^verbatim>\<open>if s.Client == nil { panic("Please use ...") }\<close> and
  return Go's \<open>error\<close>, built by the library's package \<open>errors\<close>.
\<close>

text \<open>\<open>Refund.Find\<close>: \<open>GET /transactions/{transactionID}/refunds/{refundID}\<close>. The payload
  is the pointer \<open>payload.Refund\<close> after \<open>SetClient\<close>.\<close>

definition Refund_Find ::
  "env \<Rightarrow> Refund \<Rightarrow> string \<Rightarrow> string \<Rightarrow> Options list \<Rightarrow> (errors_Error + Refund option) result \<times> Request list" where
  "Refund_Find e s transactionID refundID options =
     (if Client s = None then (Panic use_NewRefund, [])
      else
     (case pick_options options of
        Panic msg \<Rightarrow> (Panic msg, [])
      | Return opt \<Rightarrow>
     (case json_Marshal
            [(''expand'', GoStrings (Expand opt)),
             (''filter'', GoString (Filter opt)),
             (''limit'', GoUint64 (Limit opt)),
             (''page'', GoUint64 (Page opt)),
             (''end_before'', GoString (EndBefore opt)),
             (''start_after'', GoString (StartAfter opt))] of
        Inl err \<Rightarrow> (Return (Inl (errors_New err '''' '''')), [])
      | Inr body \<Rightarrow>
     (let path = ''/transactions/'' @ QueryEscape transactionID @ ''/refunds/'' @ QueryEscape refundID @ ''''
      in case http_NewRequest e ''GET'' (Host e @ path) body of
           Inl err \<Rightarrow> (Return (Inl (errors_New err '''' '''')), [])
         | Inr req \<Rightarrow>
     (let req = Header_Set ''Content-Type'' ''application/json'' req
      in case Client s of
           None \<Rightarrow> (Panic nil_dereference, [])
         | Some c \<Rightarrow>
     (let req = Header_Set ''API-Version'' (APIVersion c) req;
          req = Header_Set ''Accept'' ''application/json'' req;
          req = (if IdempotencyKey opt \<noteq> '''' then
                   Header_Set ''Idempotency-Key'' (IdempotencyKey opt) req else req);
          req = (if DisableLogging opt then Header_Set ''Disable-Logging'' ''true'' req else req);
          req = SetBasicAuth (projectID c) (projectSecret c) req
      in case Do e req of
           Inl err \<Rightarrow> (Return (Inl (errors_New err '''' '''')), [req])
         | Inr res \<Rightarrow>
     (case Decode (Response_field ''refund'' (decode_ptr (decode_Refund e) Refund_zero))
             (Response_zero None) (ResponseBody res) of
        Inl err \<Rightarrow> (Return (Inl (errors_New err '''' '''')), [req])
      | Inr payload \<Rightarrow>
          if \<not> Success payload then
            (Return (Inl (errors_NewFromResponse (StatusCode res) (Code payload) (Message payload))), [req])
          else (Return (Inr (Refund_SetClient e (Payload payload) (Client s))), [req]))))))))"

text \<open>\<open>Refund.Apply\<close>: \<open>POST /transactions/{transactionID}/refunds\<close>.\<close>

definition Refund_Apply ::
  "env \<Rightarrow> Refund \<Rightarrow> string \<Rightarrow> Options list \<Rightarrow> (errors_Error option) result \<times> Request list" where
  "Refund_Apply e s transactionID options =
     (if Client s = None then (Panic use_NewRefund, [])
      else
     (case pick_options options of
        Panic msg \<Rightarrow> (Panic msg, [])
      | Return opt \<Rightarrow>
     (case json_Marshal
            [(''amount'', GoString (Refund.Amount s)),
             (''metadata'', GoStringMap (Refund.Metadata s)),
             (''reason'', GoString (Reason s)),
             (''information'', GoString (Information s)),
             (''expand'', GoStrings (Expand opt)),
             (''filter'', GoString (Filter opt)),
             (''limit'', GoUint64 (Limit opt)),
             (''page'', GoUint64 (Page opt)),
             (''end_before'', GoString (EndBefore opt)),
             (''start_after'', GoString (StartAfter opt))] of
        Inl err \<Rightarrow> (Return (Some (errors_New err '''' '''')), [])
      | Inr body \<Rightarrow>
     (let path = ''/transactions/'' @ QueryEscape transactionID @ ''/refunds''
      in case http_NewRequest e ''POST'' (Host e @ path) body of
           Inl err \<Rightarrow> (Return (Some (errors_New err '''' '''')), [])
         | Inr req \<Rightarrow>
     (let req = Header_Set ''Content-Type'' ''application/json'' req
      in case Client s of
           None \<Rightarrow> (Panic nil_dereference, [])
         | Some c \<Rightarrow>
     (let req = Header_Set ''API-Version'' (APIVersion c) req;
          req = Header_Set ''Accept'' ''application/json'' req;
          req = (if IdempotencyKey opt \<noteq> '''' then
                   Header_Set ''Idempotency-Key'' (IdempotencyKey opt) req else req);
          req = (if DisableLogging opt then Header_Set ''Disable-Logging'' ''true'' req else req);
          req = SetBasicAuth (projectID c) (projectSecret c) req
      in case Do e req of
           Inl err \<Rightarrow> (Return (Some (errors_New err '''' '''')), [req])
         | Inr res \<Rightarrow>
     (case Decode Status_field
             (Response_zero ()) (ResponseBody res) of
        Inl err \<Rightarrow> (Return (Some (errors_New err '''' '''')), [req])
      | Inr payload \<Rightarrow>
          if \<not> Success payload then
            (Return (Some (errors_NewFromResponse (StatusCode res) (Code payload) (Message payload))), [req])
          else (Return None, [req]))))))))"

section \<open>The operations on transactions\<close>

text \<open>
  These two methods return Go's \<open>error\<close>: the error of the failing step as it is, or
  \<open>errors.New(payload.Message)\<close> of the standard library. They send \<open>expand\<close> alone
  and set neither \<open>Content-Type\<close> nor \<open>Disable-Logging\<close>.
\<close>

text \<open>\<open>Transactions.All\<close>: \<open>GET /transactions\<close>.\<close>

definition Transactions_All ::
  "env \<Rightarrow> Transactions \<Rightarrow> Options list \<Rightarrow> (go_error + Transaction option list option) result \<times> Request list" where
  "Transactions_All e s options =
     (case pick_options options of
        Panic msg \<Rightarrow> (Panic msg, [])
      | Return opt \<Rightarrow>
     (case json_Marshal
            [(''expand'', GoStrings (Expand opt))] of
        Inl err \<Rightarrow> (Return (Inl err), [])
      | Inr body \<Rightarrow>
     (let path = ''/transactions''
      in case http_NewRequest e ''GET'' (Host e @ path) body of
           Inl err \<Rightarrow> (Return (Inl err), [])
         | Inr req \<Rightarrow>
     (case Transactions.p s of
        None \<Rightarrow> (Panic nil_dereference, [])
      | Some c \<Rightarrow>
     (let req = Header_Set ''API-Version'' (APIVersion c) req;
          req = Header_Set ''Accept'' ''application/json'' req;
          req = (if IdempotencyKey opt \<noteq> '''' then
                   Header_Set ''Idempotency-Key'' (IdempotencyKey opt) req else req);
          req = SetBasicAuth (projectID c) (projectSecret c) req
      in case Do e req of
           Inl err \<Rightarrow> (Return (Inl err), [req])
         | Inr res \<Rightarrow>
     (case Decode (Reply_field ''transactions'' (pointers (decode_Transaction e) Transaction_zero ''[]*Transaction''))
             (Reply_zero None) (ResponseBody res) of
        Inl err \<Rightarrow> (Return (Inl err), [req])
      | Inr payload \<Rightarrow>
          if \<not> Success payload then
            (Return (Inl (errorString (Message payload))), [req])
          else (Return (Inr (Payload payload)), [req])))))))"

text \<open>\<open>Transactions.Find\<close>: \<open>GET /transactions/{transactionID}\<close>.\<close>

definition Transactions_Find ::
  "env \<Rightarrow> Transactions \<Rightarrow> string \<Rightarrow> Options list \<Rightarrow> (go_error + Transaction) result \<times> Request list" where
  "Transactions_Find e s transactionID options =
     (case pick_options options of
        Panic msg \<Rightarrow> (Panic msg, [])
      | Return opt \<Rightarrow>
     (case json_Marshal
            [(''expand'', GoStrings (Expand opt))] of
        Inl err \<Rightarrow> (Return (Inl err), [])
      | Inr body \<Rightarrow>
     (let path = ''/transactions/'' @ QueryEscape transactionID @ ''''
      in case http_NewRequest e ''GET'' (Host e @ path) body of
           Inl err \<Rightarrow> (Return (Inl err), [])
         | Inr req \<Rightarrow>
     (case Transactions.p s of
        None \<Rightarrow> (Panic nil_dereference, [])
      | Some c \<Rightarrow>
     (let req = Header_Set ''API-Version'' (APIVersion c) req;
          req = Header_Set ''Accept'' ''application/json'' req;
          req = (if IdempotencyKey opt \<noteq> '''' then
                   Header_Set ''Idempotency-Key'' (IdempotencyKey opt) req else req);
          req = SetBasicAuth (projectID c) (projectSecret c) req
      in case Do e req of
           Inl err \<Rightarrow> (Return (Inl err), [req])
         | Inr res \<Rightarrow>
     (case Decode (Reply_field ''transaction'' (decode_Transaction e))
             (Reply_zero Transaction_zero) (ResponseBody res) of
        Inl err \<Rightarrow> (Return (Inl err), [req])
      | Inr payload \<Rightarrow>
          if \<not> Success payload then
            (Return (Inl (errorString (Message payload))), [req])
          else (Return (Inr (Payload payload)), [req])))))))"

section \<open>All operations at once\<close>

text \<open>
  To state a property of every operation, a call is a value: the method with its
  receiver and arguments. \<open>call\<close> runs the method's definition above and injects its
  result into common types.
\<close>

datatype operation =
    InvoicesAuthorize Invoices "Invoice option" string
  | InvoicesCapture Invoices "Invoice option" string
  | InvoicesCustomer Invoices "Invoice option"
  | InvoicesAssignCustomer Invoices "Invoice option" string
  | InvoicesCustomerAction Invoices "Invoice option" string
  | InvoicesTransaction Invoices "Invoice option"
  | InvoicesVoid Invoices "Invoice option"
  | InvoicesAll Invoices
  | InvoicesCreate Invoices "Invoice option"
  | InvoicesFind Invoices string
  | TailoredInvoicesInvoice TailoredInvoices "TailoredInvoice option"
  | TailoredInvoicesAll TailoredInvoices
  | TailoredInvoicesCreate TailoredInvoices "TailoredInvoice option"
  | TailoredInvoicesFind TailoredInvoices string
  | TailoredInvoicesSave TailoredInvoices "TailoredInvoice option"
  | TailoredInvoicesDelete TailoredInvoices "TailoredInvoice option"
  | RefundFind Refund string string
  | RefundApply Refund string
  | TransactionsAll Transactions
  | TransactionsFind Transactions string

datatype payload =
    NoPayload
  | CustomerPayload Customer
  | CustomerActionPayload CustomerAction
  | TransactionPayload Transaction
  | TransactionsPayload "Transaction option list option"
  | InvoicePayload Invoice
  | InvoicesPayload "Invoice option list option"
  | TailoredInvoicePayload TailoredInvoice
  | TailoredInvoicesPayload "TailoredInvoice option list option"
  | RefundPayload "Refund option"

text \<open>
  The three kinds of error value that the operations return: the library's \<open>*Error\<close>,
  an error of the library's package \<open>errors\<close>, and a bare Go error.
\<close>

datatype failure =
    LibraryError Error
  | PackageError errors_Error
  | PlainError go_error

datatype outcome =
    Panicked string
  | Failed failure
  | Succeeded payload

definition returned_pair :: "('e \<Rightarrow> failure) \<Rightarrow> ('a \<Rightarrow> payload) \<Rightarrow> ('e + 'a) result \<Rightarrow> outcome" where
  "returned_pair f g r =
     (case r of
        Panic msg \<Rightarrow> Panicked msg
      | Return (Inl err) \<Rightarrow> Failed (f err)
      | Return (Inr x) \<Rightarrow> Succeeded (g x))"

definition returned_error :: "('e \<Rightarrow> failure) \<Rightarrow> 'e option result \<Rightarrow> outcome" where
  "returned_error f r =
     (case r of
        Panic msg \<Rightarrow> Panicked msg
      | Return (Some err) \<Rightarrow> Failed (f err)
      | Return None \<Rightarrow> Succeeded NoPayload)"

fun call :: "env \<Rightarrow> operation \<Rightarrow> Options list \<Rightarrow> outcome \<times> Request list" where
  "call e (InvoicesAuthorize s invoice source) options =
     apfst (returned_error LibraryError) (Invoices_Authorize e s invoice source options)"
| "call e (InvoicesCapture s invoice source) options =
     apfst (returned_error LibraryError) (Invoices_Capture e s invoice source options)"
| "call e (InvoicesCustomer s invoice) options =
     apfst (returned_pair LibraryError CustomerPayload) (Invoices_Customer e s invoice options)"
| "call e (InvoicesAssignCustomer s invoice customerID) options =
     apfst (returned_pair LibraryError CustomerPayload)
       (Invoices_AssignCustomer e s invoice customerID options)"
| "call e (InvoicesCustomerAction s invoice gatewayConfigurationID) options =
     apfst (returned_pair LibraryError CustomerActionPayload)
       (Invoices_CustomerAction e s invoice gatewayConfigurationID options)"
| "call e (InvoicesTransaction s invoice) options =
     apfst (returned_pair LibraryError TransactionPayload) (Invoices_Transaction e s invoice options)"
| "call e (InvoicesVoid s invoice) options =
     apfst (returned_error LibraryError) (Invoices_Void e s invoice options)"
| "call e (InvoicesAll s) options =
     apfst (returned_pair LibraryError InvoicesPayload) (Invoices_All e s options)"
| "call e (InvoicesCreate s invoice) options =
     apfst (returned_pair LibraryError InvoicePayload) (Invoices_Create e s invoice options)"
| "call e (InvoicesFind s invoiceID) options =
     apfst (returned_pair LibraryError InvoicePayload) (Invoices_Find e s invoiceID options)"
| "call e (TailoredInvoicesInvoice s tailoredInvoice) options =
     apfst (returned_pair LibraryError InvoicePayload)
       (TailoredInvoices_Invoice e s tailoredInvoice options)"
| "call e (TailoredInvoicesAll s) options =
     apfst (returned_pair LibraryError TailoredInvoicesPayload) (TailoredInvoices_All e s options)"
| "call e (TailoredInvoicesCreate s tailoredInvoice) options =
     apfst (returned_pair LibraryError TailoredInvoicePayload)
       (TailoredInvoices_Create e s tailoredInvoice options)"
| "call e (TailoredInvoicesFind s tailoredInvoiceID) options =
     apfst (returned_pair LibraryError TailoredInvoicePayload)
       (TailoredInvoices_Find e s tailoredInvoiceID options)"
| "call e (TailoredInvoicesSave s tailoredInvoice) options =
     apfst (returned_pair LibraryError TailoredInvoicePayload)
       (TailoredInvoices_Save e s tailoredInvoice options)"
| "call e (TailoredInvoicesDelete s tailoredInvoice) options =
     apfst (returned_error LibraryError) (TailoredInvoices_Delete e s tailoredInvoice options)"
| "call e (RefundFind s transactionID refundID) options =
     apfst (returned_pair PackageError RefundPayload) (Refund_Find e s transactionID refundID options)"
| "call e (RefundApply s transactionID) options =
     apfst (returned_error PackageError) (Refund_Apply e s transactionID options)"
| "call e (TransactionsAll s) options =
     apfst (returned_pair PlainError TransactionsPayload) (Transactions_All e s options)"
| "call e (TransactionsFind s transactionID) options =
     apfst (returned_pair PlainError TransactionPayload) (Transactions_Find e s transactionID options)"

text \<open>Which file an operation belongs to, and the client pointer of its receiver.\<close>

fun on_refund :: "operation \<Rightarrow> bool" where
  "on_refund (RefundFind s transactionID refundID) = True"
| "on_refund (RefundApply s transactionID) = True"
| "on_refund other = False"

fun on_transactions :: "operation \<Rightarrow> bool" where
  "on_transactions (TransactionsAll s) = True"
| "on_transactions (TransactionsFind s transactionID) = True"
| "on_transactions other = False"

fun client_of :: "operation \<Rightarrow> ProcessOut option" where
  "client_of (InvoicesAuthorize s invoice source) = Invoices.p s"
| "client_of (InvoicesCapture s invoice source) = Invoices.p s"
| "client_of (InvoicesCustomer s invoice) = Invoices.p s"
| "client_of (InvoicesAssignCustomer s invoice customerID) = Invoices.p s"
| "client_of (InvoicesCustomerAction s invoice gatewayConfigurationID) = Invoices.p s"
| "client_of (InvoicesTransaction s invoice) = Invoices.p s"
| "client_of (InvoicesVoid s invoice) = Invoices.p s"
| "client_of (InvoicesAll s) = Invoices.p s"
| "client_of (InvoicesCreate s invoice) = Invoices.p s"
| "client_of (InvoicesFind s invoiceID) = Invoices.p s"
| "client_of (TailoredInvoicesInvoice s tailoredInvoice) = TailoredInvoices.p s"
| "client_of (TailoredInvoicesAll s) = TailoredInvoices.p s"
| "client_of (TailoredInvoicesCreate s tailoredInvoice) = TailoredInvoices.p s"
| "client_of (TailoredInvoicesFind s tailoredInvoiceID) = TailoredInvoices.p s"
| "client_of (TailoredInvoicesSave s tailoredInvoice) = TailoredInvoices.p s"
| "client_of (TailoredInvoicesDelete s tailoredInvoice) = TailoredInvoices.p s"
| "client_of (RefundFind s transactionID refundID) = Client s"
| "client_of (RefundApply s transactionID) = Client s"
| "client_of (TransactionsAll s) = Transactions.p s"
| "client_of (TransactionsFind s transactionID) = Transactions.p s"

text \<open>
  The path templates of section 6 of the specification, with the encoding of an
  identifier left open: \<open>path_with enc\<close> is the path of the operation when every
  caller-supplied identifier \<open>x\<close> is written \<open>enc x\<close>. It is \<open>None\<close> when the resource
  argument is a nil pointer: the operation then panics on reading the resource,
  before the path is built.
\<close>

fun path_with :: "(string \<Rightarrow> string) \<Rightarrow> operation \<Rightarrow> string option" where
  "path_with enc (InvoicesAuthorize s invoice source) =
     map_option (\<lambda>i. ''/invoices/'' @ enc (Invoice.ID i) @ ''/authorize'') invoice"
| "path_with enc (InvoicesCapture s invoice source) =
     map_option (\<lambda>i. ''/invoices/'' @ enc (Invoice.ID i) @ ''/capture'') invoice"
| "path_with enc (InvoicesCustomer s invoice) =
     map_option (\<lambda>i. ''/invoices/'' @ enc (Invoice.ID i) @ ''/customers'') invoice"
| "path_with enc (InvoicesAssignCustomer s invoice customerID) =
     map_option (\<lambda>i. ''/invoices/'' @ enc (Invoice.ID i) @ ''/customers'') invoice"
| "path_with enc (InvoicesCustomerAction s invoice gatewayConfigurationID) =
     map_option (\<lambda>i. ''/invoices/'' @ enc (Invoice.ID i) @ ''/gateway-configurations/''
                       @ enc gatewayConfigurationID @ ''/customer-action'') invoice"
| "path_with enc (InvoicesTransaction s invoice) =
     map_option (\<lambda>i. ''/invoices/'' @ enc (Invoice.ID i) @ ''/transactions'') invoice"
| "path_with enc (InvoicesVoid s invoice) =
     map_option (\<lambda>i. ''/invoices/'' @ enc (Invoice.ID i) @ ''/void'') invoice"
| "path_with enc (InvoicesAll s) = Some ''/invoices''"
| "path_with enc (InvoicesCreate s invoice) = map_option (\<lambda>i. ''/invoices'') invoice"
| "path_with enc (InvoicesFind s invoiceID) = Some (''/invoices/'' @ enc invoiceID)"
| "path_with enc (TailoredInvoicesInvoice s tailoredInvoice) =
     map_option (\<lambda>t. ''/tailored-invoices/'' @ enc (TailoredInvoice.ID t) @ ''/invoices'')
       tailoredInvoice"
| "path_with enc (TailoredInvoicesAll s) = Some ''/tailored-invoices''"
| "path_with enc (TailoredInvoicesCreate s tailoredInvoice) =
     map_option (\<lambda>t. ''/tailored-invoices'') tailoredInvoice"
| "path_with enc (TailoredInvoicesFind s tailoredInvoiceID) =
     Some (''/tailored-invoices/'' @ enc tailoredInvoiceID)"
| "path_with enc (TailoredInvoicesSave s tailoredInvoice) =
     map_option (\<lambda>t. ''/tailored-invoices/'' @ enc (TailoredInvoice.ID t)) tailoredInvoice"
| "path_with enc (TailoredInvoicesDelete s tailoredInvoice) =
     map_option (\<lambda>t. ''/tailored-invoices/'' @ enc (TailoredInvoice.ID t)) tailoredInvoice"
| "path_with enc (RefundFind s transactionID refundID) =
     Some (''/transactions/'' @ enc transactionID @ ''/refunds/'' @ enc refundID)"
| "path_with enc (RefundApply s transactionID) =
     Some (''/transactions/'' @ enc transactionID @ ''/refunds'')"
| "path_with enc (TransactionsAll s) = Some ''/transactions''"
| "path_with enc (TransactionsFind s transactionID) = Some (''/transactions/'' @ enc transactionID)"

text \<open>
  Percent-encoding as the specification names it (RFC 3986): every byte that is not
  unreserved is written as \<open>%\<close> and two upper-case hexadecimal digits.
\<close>

definition percent_byte :: "char \<Rightarrow> string" where
  "percent_byte c =
     (if shouldEscape c then
        [CHR ''%'', upperhex ! ((of_char c :: nat) div 16), upperhex ! ((of_char c :: nat) mod 16)]
      else [c])"

definition percent_encode :: "string \<Rightarrow> string" where
  "percent_encode s = concat (map percent_byte s)"

section \<open>The request executor of the specification\<close>

text \<open>
  Section 4.1 of the specification describes one executor that every operation
  delegates to: \<open>execute(method, path, bodyFields, options)\<close>. \<open>execute\<close> below is
  that executor, written from the specification's words and parameterised by what
  differs between operations (\<open>method_of\<close>, \<open>path_with\<close>, \<open>fields_of\<close>, \<open>headers_of\<close>,
  \<open>wrap_of\<close>, \<open>decoded\<close>, \<open>api_failure\<close>). The theorem \<open>call_execute\<close> proves that each
  of the twenty methods, as modelled from its source, is this executor at its own
  parameters.
\<close>

fun method_of :: "operation \<Rightarrow> string" where
  "method_of (InvoicesAuthorize s invoice source) = ''POST''"
| "method_of (InvoicesCapture s invoice source) = ''POST''"
| "method_of (InvoicesCustomer s invoice) = ''GET''"
| "method_of (InvoicesAssignCustomer s invoice customerID) = ''POST''"
| "method_of (InvoicesCustomerAction s invoice gatewayConfigurationID) = ''GET''"
| "method_of (InvoicesTransaction s invoice) = ''GET''"
| "method_of (InvoicesVoid s invoice) = ''POST''"
| "method_of (InvoicesAll s) = ''GET''"
| "method_of (InvoicesCreate s invoice) = ''POST''"
| "method_of (InvoicesFind s invoiceID) = ''GET''"
| "method_of (TailoredInvoicesInvoice s tailoredInvoice) = ''POST''"
| "method_of (TailoredInvoicesAll s) = ''GET''"
| "method_of (TailoredInvoicesCreate s tailoredInvoice) = ''POST''"
| "method_of (TailoredInvoicesFind s tailoredInvoiceID) = ''GET''"
| "method_of (TailoredInvoicesSave s tailoredInvoice) = ''PUT''"
| "method_of (TailoredInvoicesDelete s tailoredInvoice) = ''DELETE''"
| "method_of (RefundFind s transactionID refundID) = ''GET''"
| "method_of (RefundApply s transactionID) = ''POST''"
| "method_of (TransactionsAll s) = ''GET''"
| "method_of (TransactionsFind s transactionID) = ''GET''"

text \<open>The options' part of a request body: two fields, six in \<^verbatim>\<open>refund.go\<close>.\<close>

definition expand_filter :: "Options \<Rightarrow> (string \<times> iface) list" where
  "expand_filter opt = [(''expand'', GoStrings (Expand opt)), (''filter'', GoString (Filter opt))]"

definition pagination :: "Options \<Rightarrow> (string \<times> iface) list" where
  "pagination opt =
     [(''limit'', GoUint64 (Limit opt)), (''page'', GoUint64 (Page opt)),
      (''end_before'', GoString (EndBefore opt)), (''start_after'', GoString (StartAfter opt))]"

definition Invoice_fields :: "Invoice \<Rightarrow> (string \<times> iface) list" where
  "Invoice_fields i =
     [(''name'', GoString (Invoice.Name i)), (''amount'', GoString (Invoice.Amount i)),
      (''currency'', GoString (Invoice.Currency i)), (''metadata'', GoStringMap (Invoice.Metadata i)),
      (''request_email'', GoBool (Invoice.RequestEmail i)),
      (''request_shipping'', GoBool (Invoice.RequestShipping i)),
      (''return_url'', GoString (Invoice.ReturnURL i)),
      (''cancel_url'', GoString (Invoice.CancelURL i))]"

definition TailoredInvoice_fields :: "TailoredInvoice \<Rightarrow> (string \<times> iface) list" where
  "TailoredInvoice_fields t =
     [(''name'', GoString (TailoredInvoice.Name t)), (''amount'', GoString (TailoredInvoice.Amount t)),
      (''currency'', GoString (TailoredInvoice.Currency t)),
      (''metadata'', GoStringMap (TailoredInvoice.Metadata t)),
      (''request_email'', GoBool (TailoredInvoice.RequestEmail t)),
      (''request_shipping'', GoBool (TailoredInvoice.RequestShipping t)),
      (''return_url'', GoString (TailoredInvoice.ReturnURL t)),
      (''cancel_url'', GoString (TailoredInvoice.CancelURL t))]"

text \<open>
  The body fields of an operation: the resource's attributes for create, update and
  apply, the arguments \<open>source\<close> and \<open>customer_id\<close>, and the options' fields.
  \<open>None\<close> when the resource argument is nil.
\<close>

fun fields_of :: "operation \<Rightarrow> Options \<Rightarrow> (string \<times> iface) list option" where
  "fields_of (InvoicesAuthorize s invoice source) opt =
     map_option (\<lambda>i. (''source'', GoString source) # expand_filter opt) invoice"
| "fields_of (InvoicesCapture s invoice source) opt =
     map_option (\<lambda>i. (''source'', GoString source) # expand_filter opt) invoice"
| "fields_of (InvoicesCustomer s invoice) opt = map_option (\<lambda>i. expand_filter opt) invoice"
| "fields_of (InvoicesAssignCustomer s invoice customerID) opt =
     map_option (\<lambda>i. (''customer_id'', GoString customerID) # expand_filter opt) invoice"
| "fields_of (InvoicesCustomerAction s invoice gatewayConfigurationID) opt =
     map_option (\<lambda>i. expand_filter opt) invoice"
| "fields_of (InvoicesTransaction s invoice) opt = map_option (\<lambda>i. expand_filter opt) invoice"
| "fields_of (InvoicesVoid s invoice) opt = map_option (\<lambda>i. expand_filter opt) invoice"
| "fields_of (InvoicesAll s) opt = Some (expand_filter opt)"
| "fields_of (InvoicesCreate s invoice) opt =
     map_option (\<lambda>i. Invoice_fields i @ expand_filter opt) invoice"
| "fields_of (InvoicesFind s invoiceID) opt = Some (expand_filter opt)"
| "fields_of (TailoredInvoicesInvoice s tailoredInvoice) opt =
     map_option (\<lambda>t. expand_filter opt) tailoredInvoice"
| "fields_of (TailoredInvoicesAll s) opt = Some (expand_filter opt)"
| "fields_of (TailoredInvoicesCreate s tailoredInvoice) opt =
     map_option (\<lambda>t. TailoredInvoice_fields t @ expand_filter opt) tailoredInvoice"
| "fields_of (TailoredInvoicesFind s tailoredInvoiceID) opt = Some (expand_filter opt)"
| "fields_of (TailoredInvoicesSave s tailoredInvoice) opt =
     map_option (\<lambda>t. TailoredInvoice_fields t @ expand_filter opt) tailoredInvoice"
| "fields_of (TailoredInvoicesDelete s tailoredInvoice) opt =
     map_option (\<lambda>t. expand_filter opt) tailoredInvoice"
| "fields_of (RefundFind s transactionID refundID) opt = Some (expand_filter opt @ pagination opt)"
| "fields_of (RefundApply s transactionID) opt =
     Some ([(''amount'', GoString (Refund.Amount s)), (''metadata'', GoStringMap (Refund.Metadata s)),
            (''reason'', GoString (Reason s)), (''information'', GoString (Information s))]
           @ expand_filter opt @ pagination opt)"
| "fields_of (TransactionsAll s) opt = Some [(''expand'', GoStrings (Expand opt))]"
| "fields_of (TransactionsFind s transactionID) opt = Some [(''expand'', GoStrings (Expand opt))]"

text \<open>
  The headers and the authentication of section 6. The operations on transactions
  set the shorter list.
\<close>

definition headers_full :: "ProcessOut \<Rightarrow> Options \<Rightarrow> Request \<Rightarrow> Request" where
  "headers_full c opt req =
     (let req = Header_Set ''Content-Type'' ''application/json'' req;
          req = Header_Set ''API-Version'' (APIVersion c) req;
          req = Header_Set ''Accept'' ''application/json'' req;
          req = (if IdempotencyKey opt \<noteq> '''' then
                   Header_Set ''Idempotency-Key'' (IdempotencyKey opt) req else req);
          req = (if DisableLogging opt then Header_Set ''Disable-Logging'' ''true'' req else req)
      in SetBasicAuth (projectID c) (projectSecret c) req)"

definition headers_short :: "ProcessOut \<Rightarrow> Options \<Rightarrow> Request \<Rightarrow> Request" where
  "headers_short c opt req =
     (let req = Header_Set ''API-Version'' (APIVersion c) req;
          req = Header_Set ''Accept'' ''application/json'' req;
          req = (if IdempotencyKey opt \<noteq> '''' then
                   Header_Set ''Idempotency-Key'' (IdempotencyKey opt) req else req)
      in SetBasicAuth (projectID c) (projectSecret c) req)"

definition headers_of :: "operation \<Rightarrow> ProcessOut \<Rightarrow> Options \<Rightarrow> Request \<Rightarrow> Request" where
  "headers_of op = (if on_transactions op then headers_short else headers_full)"

text \<open>How an operation returns the error of a failed step.\<close>

definition wrap_of :: "operation \<Rightarrow> go_error \<Rightarrow> failure" where
  "wrap_of op err =
     (if on_transactions op then PlainError err
      else if on_refund op then PackageError (errors_New err '''' '''')
      else LibraryError (newError err))"

text \<open>
  The envelope of the specification: the success flag, the message, the error code
  (\<open>None\<close> where the operation's \<open>Response\<close> declares no field for \<open>error_type\<close>) and
  the payload that a successful call returns.
\<close>

record envelope =
  success :: bool
  message :: string
  error_type :: "string option"
  resource :: payload

definition coded_view :: "('a \<Rightarrow> payload) \<Rightarrow> 'a Response_coded \<Rightarrow> envelope" where
  "coded_view g r =
     \<lparr>success = Success r, message = Message r, error_type = Some (Code r),
      resource = g (Payload r)\<rparr>"

definition reply_view :: "('a \<Rightarrow> payload) \<Rightarrow> 'a Reply \<Rightarrow> envelope" where
  "reply_view g r =
     \<lparr>success = Success r, message = Message r, error_type = None, resource = g (Payload r)\<rparr>"

text \<open>The envelope that an operation decodes from a response body.\<close>

fun decoded :: "env \<Rightarrow> operation \<Rightarrow> go_error + json \<Rightarrow> go_error + envelope" where
  "decoded e (InvoicesAuthorize s invoice source) body =
     map_sum id (coded_view (\<lambda>u. NoPayload)) (Decode Status_field (Response_zero ()) body)"
| "decoded e (InvoicesCapture s invoice source) body =
     map_sum id (coded_view (\<lambda>u. NoPayload)) (Decode Status_field (Response_zero ()) body)"
| "decoded e (InvoicesCustomer s invoice) body =
     map_sum id (coded_view CustomerPayload)
       (Decode (Response_field ''customer'' (decode_Customer e)) (Response_zero (Customer_of [])) body)"
| "decoded e (InvoicesAssignCustomer s invoice customerID) body =
     map_sum id (coded_view CustomerPayload)
       (Decode (Response_field ''customer'' (decode_Customer e)) (Response_zero (Customer_of [])) body)"
| "decoded e (InvoicesCustomerAction s invoice gatewayConfigurationID) body =
     map_sum id (coded_view CustomerActionPayload)
       (Decode (Response_field ''customer_action'' (decode_CustomerAction e))
          (Response_zero (CustomerAction_of [])) body)"
| "decoded e (InvoicesTransaction s invoice) body =
     map_sum id (coded_view TransactionPayload)
       (Decode (Response_field ''transaction'' (decode_Transaction e)) (Response_zero Transaction_zero) body)"
| "decoded e (InvoicesVoid s invoice) body =
     map_sum id (coded_view (\<lambda>u. NoPayload)) (Decode Status_field (Response_zero ()) body)"
| "decoded e (InvoicesAll s) body =
     map_sum id (coded_view InvoicesPayload)
       (Decode (Response_field ''invoices'' (pointers (decode_Invoice e) Invoice_zero ''[]*Invoice''))
          (Response_zero None) body)"
| "decoded e (InvoicesCreate s invoice) body =
     map_sum id (coded_view InvoicePayload)
       (Decode (Response_field ''invoice'' (decode_Invoice e)) (Response_zero Invoice_zero) body)"
| "decoded e (InvoicesFind s invoiceID) body =
     map_sum id (coded_view InvoicePayload)
       (Decode (Response_field ''invoice'' (decode_Invoice e)) (Response_zero Invoice_zero) body)"
| "decoded e (TailoredInvoicesInvoice s tailoredInvoice) body =
     map_sum id (coded_view InvoicePayload)
       (Decode (Response_field ''invoice'' (decode_Invoice e)) (Response_zero Invoice_zero) body)"
| "decoded e (TailoredInvoicesAll s) body =
     map_sum id (coded_view TailoredInvoicesPayload)
       (Decode (Response_field ''tailored_invoices''
                  (pointers (decode_TailoredInvoice e) TailoredInvoice_zero ''[]*TailoredInvoice''))
          (Response_zero None) body)"
| "decoded e (TailoredInvoicesCreate s tailoredInvoice) body =
     map_sum id (coded_view TailoredInvoicePayload)
       (Decode (Response_field ''tailored_invoice'' (decode_TailoredInvoice e))
          (Response_zero TailoredInvoice_zero) body)"
| "decoded e (TailoredInvoicesFind s tailoredInvoiceID) body =
     map_sum id (coded_view TailoredInvoicePayload)
       (Decode (Response_field ''tailored_invoice'' (decode_TailoredInvoice e))
          (Response_zero TailoredInvoice_zero) body)"
| "decoded e (TailoredInvoicesSave s tailoredInvoice) body =
     map_sum id (coded_view TailoredInvoicePayload)
       (Decode (Response_field ''tailored_invoice'' (decode_TailoredInvoice e))
          (Response_zero TailoredInvoice_zero) body)"
| "decoded e (TailoredInvoicesDelete s tailoredInvoice) body =
     map_sum id (coded_view (\<lambda>u. NoPayload)) (Decode Status_field (Response_zero ()) body)"
| "decoded e (RefundFind s transactionID refundID) body =
     map_sum id (coded_view (\<lambda>r. RefundPayload (Refund_SetClient e r (Client s))))
       (Decode (Response_field ''refund'' (decode_ptr (decode_Refund e) Refund_zero))
          (Response_zero None) body)"
| "decoded e (RefundApply s transactionID) body =
     map_sum id (coded_view (\<lambda>u. NoPayload)) (Decode Status_field (Response_zero ()) body)"
| "decoded e (TransactionsAll s) body =
     map_sum id (reply_view TransactionsPayload)
       (Decode (Reply_field ''transactions''
                  (pointers (decode_Transaction e) Transaction_zero ''[]*Transaction''))
          (Reply_zero None) body)"
| "decoded e (TransactionsFind s transactionID) body =
     map_sum id (reply_view TransactionPayload)
       (Decode (Reply_field ''transaction'' (decode_Transaction e)) (Reply_zero Transaction_zero) body)"

text \<open>The error returned for an envelope whose success flag is false.\<close>

definition api_failure :: "operation \<Rightarrow> int \<Rightarrow> envelope \<Rightarrow> failure" where
  "api_failure op status v =
     (let code = (case error_type v of None \<Rightarrow> '''' | Some c \<Rightarrow> c)
      in if on_transactions op then PlainError (errorString (message v))
         else if on_refund op then PackageError (errors_NewFromResponse status code (message v))
         else LibraryError \<lparr>Err = errorString (message v), Error.Code = code\<rparr>)"

definition execute :: "env \<Rightarrow> operation \<Rightarrow> Options list \<Rightarrow> outcome \<times> Request list" where
  "execute e op options =
     (if on_refund op \<and> client_of op = None then (Panicked use_NewRefund, [])
      else
        case pick_options options of
          Panic msg \<Rightarrow> (Panicked msg, [])
        | Return opt \<Rightarrow>
        (case (fields_of op opt, path_with QueryEscape op) of
          (Some entries, Some path) \<Rightarrow>
            (case json_Marshal entries of
               Inl err \<Rightarrow> (Failed (wrap_of op err), [])
             | Inr body \<Rightarrow>
            (case http_NewRequest e (method_of op) (Host e @ path) body of
               Inl err \<Rightarrow> (Failed (wrap_of op err), [])
             | Inr req \<Rightarrow>
            (case client_of op of
               None \<Rightarrow> (Panicked nil_dereference, [])
             | Some c \<Rightarrow>
            (let req = headers_of op c opt req
             in case Do e req of
                  Inl err \<Rightarrow> (Failed (wrap_of op err), [req])
                | Inr res \<Rightarrow>
            (case decoded e op (ResponseBody res) of
               Inl err \<Rightarrow> (Failed (wrap_of op err), [req])
             | Inr v \<Rightarrow>
                 if \<not> success v then (Failed (api_failure op (StatusCode res) v), [req])
                 else (Succeeded (resource v), [req]))))))
        | _ \<Rightarrow> (Panicked nil_dereference, [])))"

text \<open>
  The request that an invocation hands to \<open>http.DefaultClient.Do\<close>, if it gets that
  far: \<open>None\<close> when it panics or returns before.
\<close>

definition built :: "env \<Rightarrow> operation \<Rightarrow> Options list \<Rightarrow> Request option" where
  "built e op options =
     (if on_refund op \<and> client_of op = None then None
      else case pick_options options of
        Panic msg \<Rightarrow> None
      | Return opt \<Rightarrow>
        (case (fields_of op opt, path_with QueryEscape op, client_of op) of
           (Some entries, Some path, Some c) \<Rightarrow>
             (case json_Marshal entries of
                Inl err \<Rightarrow> None
              | Inr body \<Rightarrow>
                (case http_NewRequest e (method_of op) (Host e @ path) body of
                   Inl err \<Rightarrow> None
                 | Inr req \<Rightarrow> Some (headers_of op c opt req)))
         | _ \<Rightarrow> None))"

section \<open>An example environment\<close>

text \<open>
  A concrete environment for the closed examples: the production host, every URL
  parses, no timestamp parses, the decoders of the types declared outside the
  sources accept everything and store nothing, and \<open>Do\<close> is given.
\<close>

definition example_env :: "(Request \<Rightarrow> go_error + Response) \<Rightarrow> env" where
  "example_env d =
     \<lparr>Host = ''https://api.processout.com'', url_Parse = (\<lambda>u. None), Do = d,
      parse_RFC3339 = (\<lambda>s. None), decode_Project = (\<lambda>j v. Inr v),
      decode_Customer = (\<lambda>j v. Inr v), decode_Subscription = (\<lambda>j v. Inr v),
      decode_CustomerAction = (\<lambda>j v. Inr v), decode_ProcessOut = (\<lambda>j v. Inr v),
      Transaction_SetClient = (\<lambda>c t. t)\<rparr>"

text \<open>A server that answers every request with the same status code and JSON body.\<close>

definition answer :: "int \<Rightarrow> json \<Rightarrow> Request \<Rightarrow> go_error + Response" where
  "answer status body req = Inr \<lparr>StatusCode = status, ResponseBody = Inr body\<rparr>"

definition example_client :: ProcessOut where
  "example_client = \<lparr>APIVersion = ''1.3.0.0'', projectID = ''proj_1'', projectSecret = ''key_1''\<rparr>"

text \<open>The two response bodies of section 8 of the specification.\<close>

definition invoice_found :: json where
  "invoice_found =
     JObject [(''success'', JBool True),
              (''invoice'', JObject [(''id'', JString ''inv_123''), (''name'', JString ''Test'')])]"

definition invalid_currency :: json where
  "invalid_currency =
     JObject [(''success'', JBool False), (''message'', JString ''invalid currency''),
              (''error_type'', JString ''invoice.invalid_currency'')]"

definition example_invoices :: Invoices where
  "example_invoices = \<lparr>Invoices.p = Some example_client\<rparr>"

definition example_transactions :: Transactions where
  "example_transactions = \<lparr>Transactions.p = Some example_client\<rparr>"

section \<open>Every method is the executor at its parameters\<close>

lemma apfst_result_case:
  "apfst f (case r of Panic m \<Rightarrow> a m | Return v \<Rightarrow> b v) =
     (case r of Panic m \<Rightarrow> apfst f (a m) | Return v \<Rightarrow> apfst f (b v))"
  by (cases r) simp_all

lemma apfst_sum_case:
  "apfst f (case r of Inl m \<Rightarrow> a m | Inr v \<Rightarrow> b v) =
     (case r of Inl m \<Rightarrow> apfst f (a m) | Inr v \<Rightarrow> apfst f (b v))"
  by (cases r) simp_all

lemma apfst_option_case:
  "apfst f (case r of None \<Rightarrow> a | Some v \<Rightarrow> b v) =
     (case r of None \<Rightarrow> apfst f a | Some v \<Rightarrow> apfst f (b v))"
  by (cases r) simp_all

lemma apfst_if: "apfst f (if c then a else b) = (if c then apfst f a else apfst f b)"
  by simp

lemma case_map_sum:
  "(case map_sum id f x of Inl err \<Rightarrow> a err | Inr v \<Rightarrow> b v) =
     (case x of Inl err \<Rightarrow> a err | Inr v \<Rightarrow> b (f v))"
  by (cases x) simp_all

lemmas refine_simps =
  execute_def wrap_of_def api_failure_def headers_of_def headers_full_def headers_short_def
  coded_view_def reply_view_def expand_filter_def pagination_def Invoice_fields_def
  TailoredInvoice_fields_def returned_pair_def returned_error_def newError_def Let_def
  json_Marshal_def apfst_result_case apfst_sum_case apfst_option_case apfst_if case_map_sum

lemma refine_Invoices_Authorize:
  "call e (InvoicesAuthorize s invoice source) options = execute e (InvoicesAuthorize s invoice source) options"
  by (cases invoice) (simp_all add: Invoices_Authorize_def refine_simps
      cong: result.case_cong sum.case_cong option.case_cong if_cong)

lemma refine_Invoices_Capture:
  "call e (InvoicesCapture s invoice source) options = execute e (InvoicesCapture s invoice source) options"
  by (cases invoice) (simp_all add: Invoices_Capture_def refine_simps
      cong: result.case_cong sum.case_cong option.case_cong if_cong)

lemma refine_Invoices_Customer:
  "call e (InvoicesCustomer s invoice) options = execute e (InvoicesCustomer s invoice) options"
  by (cases invoice) (simp_all add: Invoices_Customer_def refine_simps
      cong: result.case_cong sum.case_cong option.case_cong if_cong)

lemma refine_Invoices_AssignCustomer:
  "call e (InvoicesAssignCustomer s invoice customerID) options = execute e (InvoicesAssignCustomer s invoice customerID) options"
  by (cases invoice) (simp_all add: Invoices_AssignCustomer_def refine_simps
      cong: result.case_cong sum.case_cong option.case_cong if_cong)

lemma refine_Invoices_CustomerAction:
  "call e (InvoicesCustomerAction s invoice gatewayConfigurationID) options = execute e (InvoicesCustomerAction s invoice gatewayConfigurationID) options"
  by (cases invoice) (simp_all add: Invoices_CustomerAction_def refine_simps
      cong: result.case_cong sum.case_cong option.case_cong if_cong)

lemma refine_Invoices_Transaction:
  "call e (InvoicesTransaction s invoice) options = execute e (InvoicesTransaction s invoice) options"
  by (cases invoice) (simp_all add: Invoices_Transaction_def refine_simps
      cong: result.case_cong sum.case_cong option.case_cong if_cong)

lemma refine_Invoices_Void:
  "call e (InvoicesVoid s invoice) options = execute e (InvoicesVoid s invoice) options"
  by (cases invoice) (simp_all add: Invoices_Void_def refine_simps
      cong: result.case_cong sum.case_cong option.case_cong if_cong)

lemma refine_Invoices_All:
  "call e (InvoicesAll s) options = execute e (InvoicesAll s) options"
  by (simp add: Invoices_All_def refine_simps
      cong: result.case_cong sum.case_cong option.case_cong if_cong)

lemma refine_Invoices_Create:
  "call e (InvoicesCreate s invoice) options = execute e (InvoicesCreate s invoice) options"
  by (cases invoice) (simp_all add: Invoices_Create_def refine_simps
      cong: result.case_cong sum.case_cong option.case_cong if_cong)

lemma refine_Invoices_Find:
  "call e (InvoicesFind s invoiceID) options = execute e (InvoicesFind s invoiceID) options"
  by (simp add: Invoices_Find_def refine_simps
      cong: result.case_cong sum.case_cong option.case_cong if_cong)

lemma refine_TailoredInvoices_Invoice:
  "call e (TailoredInvoicesInvoice s tailoredInvoice) options = execute e (TailoredInvoicesInvoice s tailoredInvoice) options"
  by (cases tailoredInvoice) (simp_all add: TailoredInvoices_Invoice_def refine_simps
      cong: result.case_cong sum.case_cong option.case_cong if_cong)

lemma refine_TailoredInvoices_All:
  "call e (TailoredInvoicesAll s) options = execute e (TailoredInvoicesAll s) options"
  by (simp add: TailoredInvoices_All_def refine_simps
      cong: result.case_cong sum.case_cong option.case_cong if_cong)

lemma refine_TailoredInvoices_Create:
  "call e (TailoredInvoicesCreate s tailoredInvoice) options = execute e (TailoredInvoicesCreate s tailoredInvoice) options"
  by (cases tailoredInvoice) (simp_all add: TailoredInvoices_Create_def refine_simps
      cong: result.case_cong sum.case_cong option.case_cong if_cong)

lemma refine_TailoredInvoices_Find:
  "call e (TailoredInvoicesFind s tailoredInvoiceID) options = execute e (TailoredInvoicesFind s tailoredInvoiceID) options"
  by (simp add: TailoredInvoices_Find_def refine_simps
      cong: result.case_cong sum.case_cong option.case_cong if_cong)

lemma refine_TailoredInvoices_Save:
  "call e (TailoredInvoicesSave s tailoredInvoice) options = execute e (TailoredInvoicesSave s tailoredInvoice) options"
  by (cases tailoredInvoice) (simp_all add: TailoredInvoices_Save_def refine_simps
      cong: result.case_cong sum.case_cong option.case_cong if_cong)

lemma refine_TailoredInvoices_Delete:
  "call e (TailoredInvoicesDelete s tailoredInvoice) options = execute e (TailoredInvoicesDelete s tailoredInvoice) options"
  by (cases tailoredInvoice) (simp_all add: TailoredInvoices_Delete_def refine_simps
      cong: result.case_cong sum.case_cong option.case_cong if_cong)

lemma refine_Refund_Find:
  "call e (RefundFind s transactionID refundID) options = execute e (RefundFind s transactionID refundID) options"
  by (simp add: Refund_Find_def refine_simps
      cong: result.case_cong sum.case_cong option.case_cong if_cong)

lemma refine_Refund_Apply:
  "call e (RefundApply s transactionID) options = execute e (RefundApply s transactionID) options"
  by (simp add: Refund_Apply_def refine_simps
      cong: result.case_cong sum.case_cong option.case_cong if_cong)

lemma refine_Transactions_All:
  "call e (TransactionsAll s) options = execute e (TransactionsAll s) options"
  by (simp add: Transactions_All_def refine_simps
      cong: result.case_cong sum.case_cong option.case_cong if_cong)

lemma refine_Transactions_Find:
  "call e (TransactionsFind s transactionID) options = execute e (TransactionsFind s transactionID) options"
  by (simp add: Transactions_Find_def refine_simps
      cong: result.case_cong sum.case_cong option.case_cong if_cong)

text \<open>
  The refinement: on every operation and every input, the method modelled from the
  source and the executor of the specification do the same.
\<close>

lemma call_execute: "call e op options = execute e op options"
  by (cases op)
     (simp_all only: refine_Invoices_Authorize refine_Invoices_Capture
       refine_Invoices_Customer refine_Invoices_AssignCustomer
       refine_Invoices_CustomerAction refine_Invoices_Transaction
       refine_Invoices_Void refine_Invoices_All
       refine_Invoices_Create refine_Invoices_Find
       refine_TailoredInvoices_Invoice refine_TailoredInvoices_All
       refine_TailoredInvoices_Create refine_TailoredInvoices_Find
       refine_TailoredInvoices_Save refine_TailoredInvoices_Delete
       refine_Refund_Find refine_Refund_Apply
       refine_Transactions_All refine_Transactions_Find)

section \<open>Facts about the executor\<close>

text \<open>The credentials of the example client, encoded.\<close>

lemma basicAuth_example: "basicAuth ''proj_1'' ''key_1'' = ''cHJval8xOmtleV8x''"
  by (simp add: basicAuth_def encodeStd_def)

lemma pick_none: "pick_options [] = Return Options_zero"
  by (simp add: pick_options_def)

lemma pick_one: "pick_options [opt] = Return opt"
  by (simp add: pick_options_def)

lemma pick_many: "2 \<le> length options \<Longrightarrow> pick_options options = Panic options_once"
  by (simp add: pick_options_def)

lemma pick_Return: "pick_options options = Return opt \<Longrightarrow> length options \<le> 1"
  by (simp add: pick_options_def split: if_splits)

lemma pick_few: "length options \<le> 1 \<Longrightarrow> \<exists>opt. pick_options options = Return opt"
  by (simp add: pick_options_def)

text \<open>The requests of an invocation are the built request, if there is one.\<close>

lemma log_built:
  "snd (execute e op options) = (case built e op options of None \<Rightarrow> [] | Some req \<Rightarrow> [req])"
  by (simp add: execute_def built_def Let_def split: result.split sum.split option.split)

text \<open>What an invocation does once the request is built.\<close>

lemma fst_built:
  "built e op options = Some req \<Longrightarrow>
   fst (execute e op options) =
     (case Do e req of
        Inl err \<Rightarrow> Failed (wrap_of op err)
      | Inr res \<Rightarrow>
          (case decoded e op (ResponseBody res) of
             Inl err \<Rightarrow> Failed (wrap_of op err)
           | Inr v \<Rightarrow> if \<not> success v then Failed (api_failure op (StatusCode res) v)
                      else Succeeded (resource v)))"
  by (auto simp add: execute_def built_def Let_def
        split: result.splits sum.splits option.splits if_splits)

lemma execute_many:
  "2 \<le> length options \<Longrightarrow>
   execute e op options =
     (Panicked (if on_refund op \<and> client_of op = None then use_NewRefund else options_once), [])"
  by (simp add: execute_def pick_many)

lemma message_distinct:
  "use_NewRefund \<noteq> options_once" "nil_dereference \<noteq> options_once"
  "nil_dereference \<noteq> use_NewRefund" "options_once \<noteq> use_NewRefund"
  "options_once \<noteq> nil_dereference" "use_NewRefund \<noteq> nil_dereference"
  by (simp_all add: use_NewRefund_def options_once_def nil_dereference_def)

text \<open>What an invocation does when it does not get to \<open>Do\<close>.\<close>

lemma fst_unbuilt:
  "built e op options = None \<Longrightarrow>
   (\<exists>msg. fst (execute e op options) = Panicked msg
       \<and> (msg = options_once \<longrightarrow> 2 \<le> length options)
       \<and> (msg = use_NewRefund \<longrightarrow> on_refund op \<and> client_of op = None))
   \<or> (\<exists>err. fst (execute e op options) = Failed (wrap_of op err))"
  apply (simp add: execute_def built_def Let_def message_distinct
        split: result.splits sum.splits option.splits if_splits)
  apply (auto simp: pick_options_def message_distinct split: if_splits)
  done

text \<open>The panics of an invocation, and when each of them happens.\<close>

lemma panics_of_execute:
  "fst (execute e op options) = Panicked msg \<Longrightarrow>
     (msg = use_NewRefund \<and> on_refund op \<and> client_of op = None)
   \<or> (msg = options_once \<and> 2 \<le> length options)
   \<or> msg = nil_dereference"
  apply (simp add: execute_def Let_def
        split: result.splits sum.splits option.splits if_splits prod.splits)
  apply (auto simp: pick_options_def split: if_splits)
  done

lemma built_nil: "client_of op = None \<Longrightarrow> built e op options = None"
  by (simp add: built_def split: result.splits option.splits)

text \<open>The request does not depend on the transport.\<close>

lemma http_NewRequest_Do:
  "http_NewRequest (e\<lparr>Do := d\<rparr>) method url body = http_NewRequest e method url body"
  by (simp add: http_NewRequest_def)

lemma built_Do: "built (e\<lparr>Do := d\<rparr>) op options = built e op options"
  by (simp add: built_def http_NewRequest_Do
        cong: result.case_cong option.case_cong sum.case_cong prod.case_cong)

lemma built_Some:
  "built e op options = Some r \<longleftrightarrow>
     (\<exists>opt entries path body req c.
        pick_options options = Return opt
      \<and> fields_of op opt = Some entries
      \<and> path_with QueryEscape op = Some path
      \<and> json_Marshal entries = Inr body
      \<and> http_NewRequest e (method_of op) (Host e @ path) body = Inr req
      \<and> client_of op = Some c
      \<and> r = headers_of op c opt req)"
  by (auto simp add: built_def split: result.splits option.splits sum.splits)

text \<open>
  The run of \<open>Invoices.Find\<close> on the identifier \<open>inv_123\<close> with no options, up to the
  answer of the transport: the body is what \<open>json.Marshal\<close> writes for
  \<open>map[string]interface{}{"expand": opt.Expand, "filter": opt.Filter}\<close> with the zero
  \<open>Options\<close>, a nil slice and an empty string.
\<close>

lemma body_zero:
  \<open>json_Marshal [(''expand'', GoStrings None), (''filter'', GoString '''')]
     = Inr ''{"expand":null,"filter":""}''\<close>
  by (simp add: json_Marshal_def object_def sort_keys_def quote_def escape_ascii_def)

lemma escape_inv_123: "QueryEscape ''inv_123'' = ''inv_123''"
  by (simp add: QueryEscape_def escape_byte_def shouldEscape_def)

lemma decode_invoice_found:
  "Decode (Response_field ''invoice'' (decode_Invoice e)) (Response_zero Invoice_zero)
      (Inr invoice_found)
   = Inr \<lparr>Payload = Invoice_zero\<lparr>Invoice.ID := ''inv_123'', Invoice.Name := ''Test''\<rparr>,
          Success = True, Message = '''', Code = ''''\<rparr>"
  by (simp add: Decode_def decode_struct_def invoice_found_def Response_field_def Response_zero_def
       names_def upper_def store_def decode_Invoice_def Invoice_field_def Invoice_zero_def)

lemma Invoices_Find_inv_123:
  assumes \<open>url_Parse e (Host e @ ''/invoices/inv_123'') = None\<close>
      and \<open>Invoices.p s = Some c\<close>
      and \<open>req = \<lparr>Method = ''GET'', URL = Host e @ ''/invoices/inv_123'',
                   Header = [''Content-Type'' \<mapsto> ''application/json'',
                             ''API-Version'' \<mapsto> APIVersion c,
                             ''Accept'' \<mapsto> ''application/json'',
                             ''Authorization'' \<mapsto> ''Basic '' @ basicAuth (projectID c) (projectSecret c)],
                   BasicAuth = Some (projectID c, projectSecret c),
                   Body = ''{"expand":null,"filter":""}''\<rparr>\<close>
  shows \<open>Invoices_Find e s ''inv_123'' [] =
     (case Do e req of
        Inl err \<Rightarrow> (Return (Inl (newError err)), [req])
      | Inr res \<Rightarrow>
          (case Decode (Response_field ''invoice'' (decode_Invoice e)) (Response_zero Invoice_zero)
                  (ResponseBody res) of
             Inl err \<Rightarrow> (Return (Inl (newError err)), [req])
           | Inr payload \<Rightarrow>
               if \<not> Success payload
               then (Return (Inl ((newError (errorString (Message payload)))
                                     \<lparr>Error.Code := Code payload\<rparr>)), [req])
               else (Return (Inr (Payload payload)), [req])))\<close>
  using assms
  by (simp add: Invoices_Find_def pick_none body_zero escape_inv_123 http_NewRequest_def
        Header_Set_def SetBasicAuth_def Options_zero_def Let_def
        cong: sum.case_cong if_cong)

text \<open>The headers of the request that an invocation builds.\<close>

lemma http_NewRequest_Header:
  "http_NewRequest e method url body = Inr req \<Longrightarrow> Header req = Map.empty"
  by (auto simp add: http_NewRequest_def split: option.splits)

lemma headers_full_Header:
  "Header req = Map.empty \<Longrightarrow>
   Header (headers_full c opt req) =
     (\<lambda>k. if k = ''Authorization'' then Some (''Basic '' @ basicAuth (projectID c) (projectSecret c))
          else if k = ''Disable-Logging'' \<and> DisableLogging opt then Some ''true''
          else if k = ''Idempotency-Key'' \<and> IdempotencyKey opt \<noteq> '''' then Some (IdempotencyKey opt)
          else if k = ''Accept'' then Some ''application/json''
          else if k = ''API-Version'' then Some (APIVersion c)
          else if k = ''Content-Type'' then Some ''application/json''
          else None)"
  by (auto simp add: headers_full_def Header_Set_def SetBasicAuth_def Let_def fun_eq_iff)

lemma headers_short_Header:
  "Header req = Map.empty \<Longrightarrow>
   Header (headers_short c opt req) =
     (\<lambda>k. if k = ''Authorization'' then Some (''Basic '' @ basicAuth (projectID c) (projectSecret c))
          else if k = ''Idempotency-Key'' \<and> IdempotencyKey opt \<noteq> '''' then Some (IdempotencyKey opt)
          else if k = ''Accept'' then Some ''application/json''
          else if k = ''API-Version'' then Some (APIVersion c)
          else None)"
  by (auto simp add: headers_short_def Header_Set_def SetBasicAuth_def Let_def fun_eq_iff)

text \<open>The bytes that \<open>QueryEscape\<close> writes.\<close>

lemma upperhex_kept: "k < 16 \<Longrightarrow> \<not> shouldEscape (upperhex ! k)"
proof -
  have "list_all (\<lambda>c. \<not> shouldEscape c) upperhex"
    by (simp add: upperhex_def shouldEscape_def)
  moreover assume "k < 16"
  ultimately show ?thesis
    by (simp add: list_all_length upperhex_def)
qed

lemma escape_byte_kept:
  "ch \<in> set (escape_byte c) \<Longrightarrow> \<not> shouldEscape ch \<or> ch = CHR ''%'' \<or> ch = CHR ''+''"
proof -
  have "(of_char c :: nat) < 256"
    by (rule nat_of_char_less_256)
  then have "(of_char c :: nat) div 16 < 16" "(of_char c :: nat) mod 16 < 16"
    by arith+
  then have "\<not> shouldEscape (upperhex ! ((of_char c :: nat) div 16))"
    "\<not> shouldEscape (upperhex ! ((of_char c :: nat) mod 16))"
    by (simp_all add: upperhex_kept)
  moreover assume "ch \<in> set (escape_byte c)"
  ultimately show ?thesis
    by (auto simp add: escape_byte_def split: if_splits)
qed

lemma QueryEscape_kept:
  "ch \<in> set (QueryEscape x) \<Longrightarrow> \<not> shouldEscape ch \<or> ch = CHR ''%'' \<or> ch = CHR ''+''"
  by (auto simp add: QueryEscape_def dest: escape_byte_kept)

lemma escape_byte_percent:
  "escape_byte = (\<lambda>c. if c = CHR '' '' then ''+'' else percent_byte c)"
  by (simp add: escape_byte_def percent_byte_def fun_eq_iff)

text \<open>Decoding does not depend on the transport.\<close>

lemma decode_Time_Do: "decode_Time (e\<lparr>Do := d\<rparr>) = decode_Time e"
  by (simp add: fun_eq_iff decode_Time_def split: json.split option.split)

lemma Transaction_field_Do: "Transaction_field (e\<lparr>Do := d\<rparr>) = Transaction_field e"
  by (simp add: fun_eq_iff Transaction_field_def decode_Time_Do cong: if_cong)

lemma decode_Transaction_Do: "decode_Transaction (e\<lparr>Do := d\<rparr>) = decode_Transaction e"
  by (simp add: decode_Transaction_def Transaction_field_Do)

lemma Invoice_field_Do: "Invoice_field (e\<lparr>Do := d\<rparr>) = Invoice_field e"
  by (simp add: fun_eq_iff Invoice_field_def decode_Time_Do decode_Transaction_Do cong: if_cong)

lemma decode_Invoice_Do: "decode_Invoice (e\<lparr>Do := d\<rparr>) = decode_Invoice e"
  by (simp add: decode_Invoice_def Invoice_field_Do)

lemma TailoredInvoice_field_Do: "TailoredInvoice_field (e\<lparr>Do := d\<rparr>) = TailoredInvoice_field e"
  by (simp add: fun_eq_iff TailoredInvoice_field_def decode_Time_Do cong: if_cong)

lemma decode_TailoredInvoice_Do: "decode_TailoredInvoice (e\<lparr>Do := d\<rparr>) = decode_TailoredInvoice e"
  by (simp add: decode_TailoredInvoice_def TailoredInvoice_field_Do)

lemma Refund_field_Do: "Refund_field (e\<lparr>Do := d\<rparr>) = Refund_field e"
  by (simp add: fun_eq_iff Refund_field_def decode_Time_Do decode_Transaction_Do cong: if_cong)

lemma decode_Refund_Do: "decode_Refund (e\<lparr>Do := d\<rparr>) = decode_Refund e"
  by (simp add: decode_Refund_def Refund_field_Do)

lemma Refund_SetClient_Do: "Refund_SetClient (e\<lparr>Do := d\<rparr>) = Refund_SetClient e"
  by (simp add: fun_eq_iff Refund_SetClient_def cong: option.case_cong)

lemmas decoders_Do = decode_Transaction_Do decode_Invoice_Do decode_TailoredInvoice_Do
  decode_Refund_Do Refund_SetClient_Do

lemma decoded_Do: "decoded (e\<lparr>Do := d\<rparr>) op body = decoded e op body"
  by (cases op) (simp_all add: decoders_Do)

text \<open>Only the operations on transactions decode no error code.\<close>

lemma map_sum_id_Inr: "map_sum id f x = Inr v \<Longrightarrow> \<exists>r. x = Inr r \<and> v = f r"
  by (cases x) auto

lemma decoded_error_type:
  "decoded e op body = Inr v \<Longrightarrow> (error_type v = None) = on_transactions op"
  by (cases op) (auto dest!: map_sum_id_Inr simp add: coded_view_def reply_view_def)

text \<open>The outcome of an invocation whose request got an answer that decodes.\<close>

lemma fst_answered:
  assumes "snd (execute e op options) = [req]"
      and "Do e req = Inr res"
      and "decoded e op (ResponseBody res) = Inr v"
  shows "fst (execute e op options) =
           (if success v then Succeeded (resource v)
            else Failed (api_failure op (StatusCode res) v))"
proof -
  from assms(1) have "built e op options = Some req"
    by (simp add: log_built split: option.splits)
  from fst_built [OF this] assms(2,3) show ?thesis
    by simp
qed

text \<open>Two runs on the examples.\<close>

lemma find_request:
  \<open>snd (call (example_env d) (InvoicesFind example_invoices ''inv_123'') []) =
     [\<lparr>Method = ''GET'', URL = ''https://api.processout.com/invoices/inv_123'',
       Header = [''Content-Type'' \<mapsto> ''application/json'',
                 ''API-Version'' \<mapsto> ''1.3.0.0'',
                 ''Accept'' \<mapsto> ''application/json'',
                 ''Authorization'' \<mapsto> ''Basic cHJval8xOmtleV8x''],
       BasicAuth = Some (''proj_1'', ''key_1''),
       Body = ''{"expand":null,"filter":""}''\<rparr>]\<close>
  unfolding call_execute log_built
  by (simp add: built_def pick_none body_zero http_NewRequest_def escape_inv_123
        example_env_def example_invoices_def example_client_def basicAuth_example expand_filter_def
        headers_of_def headers_full_def Header_Set_def SetBasicAuth_def Options_zero_def)

lemma decoded_invoice_found:
  "decoded e (InvoicesFind s invoiceID) (ResponseBody \<lparr>StatusCode = status, ResponseBody = Inr invoice_found\<rparr>)
     = Inr \<lparr>success = True, message = '''', error_type = Some '''',
            resource = InvoicePayload (Invoice_zero\<lparr>Invoice.ID := ''inv_123'', Invoice.Name := ''Test''\<rparr>)\<rparr>"
  by (simp add: decode_invoice_found coded_view_def)

lemma decoded_invalid_currency:
  "decoded e (InvoicesFind s invoiceID)
      (ResponseBody \<lparr>StatusCode = status, ResponseBody = Inr invalid_currency\<rparr>)
     = Inr \<lparr>success = False, message = ''invalid currency'',
            error_type = Some ''invoice.invalid_currency'', resource = InvoicePayload Invoice_zero\<rparr>"
  by (simp add: coded_view_def Decode_def decode_struct_def invalid_currency_def Response_field_def
        Response_zero_def names_def upper_def store_def)

section \<open>The claims\<close>

text \<open>
  C5. For every operation, every choice of the other arguments and every environment
  (and so every simulated response), a call with no \<open>Options\<close> value and a call with
  one zero-valued \<open>Options\<close> value do the same: the same panic or returned values,
  and the same requests.
\<close>

theorem C5_no_options_is_zero_options: "call e op [] = call e op [Options_zero]"
  by (simp add: call_execute execute_def pick_none pick_one)

theorem C5_witness:
  "call (example_env (answer 200 invoice_found)) (InvoicesFind example_invoices ''inv_123'') []
     = call (example_env (answer 200 invoice_found))
         (InvoicesFind example_invoices ''inv_123'') [Options_zero]"
  using C5_no_options_is_zero_options
    [of "example_env (answer 200 invoice_found)" "InvoicesFind example_invoices ''inv_123''"]
  by simp

text \<open>
  C2. For every operation and all other arguments, two or more \<open>Options\<close> values
  make the call panic with no request built or issued, whatever the values hold: the
  result is the panic alone and does not depend on the environment. The panic is
  the one of the options check, except in \<open>Refund.Find\<close> and \<open>Refund.Apply\<close> on a nil
  client, whose own usage panic comes first. With at most one \<open>Options\<close> value the
  panic of the options check never happens.
\<close>

theorem C2_many_options_panic:
  "(2 \<le> length options \<longrightarrow>
      call e op options =
        (Panicked (if on_refund op \<and> client_of op = None then use_NewRefund else options_once), []))
   \<and> (length options \<le> 1 \<longrightarrow> fst (call e op options) \<noteq> Panicked options_once)"
proof (intro conjI impI)
  assume "2 \<le> length options"
  then show "call e op options =
        (Panicked (if on_refund op \<and> client_of op = None then use_NewRefund else options_once), [])"
    by (simp add: call_execute execute_many)
next
  assume few: "length options \<le> 1"
  show "fst (call e op options) \<noteq> Panicked options_once"
  proof (cases "built e op options")
    case None
    from fst_unbuilt[OF None] few show ?thesis
      by (auto simp: call_execute)
  next
    case (Some req)
    from fst_built[OF Some] show ?thesis
      by (auto simp: call_execute split: sum.splits if_splits)
  qed
qed

theorem C2_witness:
  "call (example_env (answer 200 invoice_found)) (InvoicesFind example_invoices ''inv_123'')
       [Options_zero, Options_zero\<lparr>Filter := ''x''\<rparr>]
     = (Panicked ''The options parameter should only be provided once.'', [])
   \<and> fst (call (example_env (answer 200 invoice_found))
            (InvoicesFind example_invoices ''inv_123'') [Options_zero])
       \<noteq> Panicked ''The options parameter should only be provided once.''"
  using C2_many_options_panic
    [of "[Options_zero, Options_zero\<lparr>Filter := ''x''\<rparr>]" "example_env (answer 200 invoice_found)"
        "InvoicesFind example_invoices ''inv_123''"]
    C2_many_options_panic
    [of "[Options_zero]" "example_env (answer 200 invoice_found)"
        "InvoicesFind example_invoices ''inv_123''"]
  by (simp add: options_once_def)

text \<open>
  C6 (as the code has it). \<open>Invoices.Find\<close> with the identifier \<open>inv_123\<close> and no
  options, on a client \<open>c\<close> and a host for which \<open>http.NewRequest\<close> accepts the URL, hands
  exactly one request to the transport: \<open>GET\<close> on the host followed by
  \<open>/invoices/inv_123\<close>, with the project's identifier and secret as basic
  authentication and the body \<open>{"expand":null,"filter":""}\<close>: the filter of the zero
  \<open>Options\<close> is the empty string, which \<open>json.Marshal\<close> writes as \<open>""\<close>, not as \<open>null\<close>.
  When the response body is
  \<open>{"success":true,"invoice":{"id":"inv_123","name":"Test"}}\<close>, whatever the status,
  the call returns the invoice with that identifier and name and no error.
\<close>

theorem C6_find_inv_123:
  assumes \<open>url_Parse e (Host e @ ''/invoices/inv_123'') = None\<close>
      and \<open>Invoices.p s = Some c\<close>
  shows \<open>snd (Invoices_Find e s ''inv_123'' []) =
            [\<lparr>Method = ''GET'', URL = Host e @ ''/invoices/inv_123'',
              Header = [''Content-Type'' \<mapsto> ''application/json'',
                        ''API-Version'' \<mapsto> APIVersion c,
                        ''Accept'' \<mapsto> ''application/json'',
                        ''Authorization'' \<mapsto> ''Basic '' @ basicAuth (projectID c) (projectSecret c)],
              BasicAuth = Some (projectID c, projectSecret c),
              Body = ''{"expand":null,"filter":""}''\<rparr>]
         \<and> (\<forall>req status.
               snd (Invoices_Find e s ''inv_123'' []) = [req]
               \<and> Do e req = Inr \<lparr>StatusCode = status, ResponseBody = Inr invoice_found\<rparr> \<longrightarrow>
                 fst (Invoices_Find e s ''inv_123'' []) =
                   Return (Inr (Invoice_zero\<lparr>Invoice.ID := ''inv_123'', Invoice.Name := ''Test''\<rparr>)))\<close>
proof -
  define req where \<open>req = \<lparr>Method = ''GET'', URL = Host e @ ''/invoices/inv_123'',
              Header = [''Content-Type'' \<mapsto> ''application/json'',
                        ''API-Version'' \<mapsto> APIVersion c,
                        ''Accept'' \<mapsto> ''application/json'',
                        ''Authorization'' \<mapsto> ''Basic '' @ basicAuth (projectID c) (projectSecret c)],
              BasicAuth = Some (projectID c, projectSecret c),
              Body = ''{"expand":null,"filter":""}''\<rparr>\<close>
  note run = Invoices_Find_inv_123 [OF assms req_def]
  have log: \<open>snd (Invoices_Find e s ''inv_123'' []) = [req]\<close>
    by (simp add: run split: sum.split)
  have out: \<open>fst (Invoices_Find e s ''inv_123'' []) =
                Return (Inr (Invoice_zero\<lparr>Invoice.ID := ''inv_123'', Invoice.Name := ''Test''\<rparr>))\<close>
    if \<open>Do e req = Inr \<lparr>StatusCode = status, ResponseBody = Inr invoice_found\<rparr>\<close> for status
    using that by (simp add: run decode_invoice_found)
  show ?thesis using log out unfolding req_def by auto
qed

theorem C6_witness:
  \<open>snd (Invoices_Find (example_env (answer 200 invoice_found)) example_invoices ''inv_123'' []) =
     [\<lparr>Method = ''GET'', URL = ''https://api.processout.com/invoices/inv_123'',
       Header = [''Content-Type'' \<mapsto> ''application/json'',
                 ''API-Version'' \<mapsto> ''1.3.0.0'',
                 ''Accept'' \<mapsto> ''application/json'',
                 ''Authorization'' \<mapsto> ''Basic cHJval8xOmtleV8x''],
       BasicAuth = Some (''proj_1'', ''key_1''),
       Body = ''{"expand":null,"filter":""}''\<rparr>]
   \<and> fst (Invoices_Find (example_env (answer 200 invoice_found)) example_invoices ''inv_123'' []) =
       Return (Inr (Invoice_zero\<lparr>Invoice.ID := ''inv_123'', Invoice.Name := ''Test''\<rparr>))\<close>
  using C6_find_inv_123 [of "example_env (answer 200 invoice_found)" example_invoices example_client]
  by (simp add: example_env_def example_invoices_def example_client_def basicAuth_example answer_def)

text \<open>
  The body of the claim, \<open>{"expand":null,"filter":null}\<close>, is not the body of the
  request: on the example client the one request of the call carries
  \<open>{"expand":null,"filter":""}\<close>.
\<close>

theorem C6_counterexample:
  \<open>map Body (snd (Invoices_Find (example_env (answer 200 invoice_found)) example_invoices
                    ''inv_123'' []))
     = [''{"expand":null,"filter":""}'']
   \<and> map Body (snd (Invoices_Find (example_env (answer 200 invoice_found)) example_invoices
                      ''inv_123'' []))
     \<noteq> [''{"expand":null,"filter":null}'']\<close>
  by (simp add: Invoices_Find_inv_123 [of _ _ example_client, OF _ _ refl] decode_invoice_found
        example_env_def example_invoices_def answer_def)

text \<open>
  C9. On a \<open>Refund\<close> whose \<open>Client\<close> is nil, \<open>Find\<close> and \<open>Apply\<close> panic with the message
  that directs the caller to \<open>client.NewRefund()\<close>, whatever the options are (also two
  or more of them: the options are read after the check) and with no request. The
  operations of \<open>Invoices\<close>, \<open>TailoredInvoices\<close> and \<open>Transactions\<close> never panic with
  that message: they read the options first, so two or more options make them
  panic with the message of the options check also on a nil client, and with at
  most one option a nil client makes them issue no request and end in Go's nil
  pointer dereference, or in the error of \<open>http.NewRequest\<close> when that comes first.
\<close>

theorem C9_refund_nil_client:
  "(Client s = None \<longrightarrow>
      Refund_Find e s transactionID refundID options =
        (Panic ''Please use the client.NewRefund() method to create a new Refund object'', [])
    \<and> Refund_Apply e s transactionID options =
        (Panic ''Please use the client.NewRefund() method to create a new Refund object'', []))
   \<and> (\<not> on_refund op \<longrightarrow>
        fst (call e op options) \<noteq> Panicked use_NewRefund
      \<and> (2 \<le> length options \<longrightarrow> call e op options = (Panicked options_once, []))
      \<and> (length options \<le> 1 \<and> client_of op = None \<longrightarrow>
            snd (call e op options) = []
          \<and> (fst (call e op options) = Panicked nil_dereference
             \<or> (\<exists>err. fst (call e op options) = Failed (wrap_of op err)))))"
proof (intro conjI impI)
  assume "Client s = None"
  then show "Refund_Find e s transactionID refundID options =
        (Panic ''Please use the client.NewRefund() method to create a new Refund object'', [])"
    by (simp add: Refund_Find_def use_NewRefund_def)
next
  assume "Client s = None"
  then show "Refund_Apply e s transactionID options =
        (Panic ''Please use the client.NewRefund() method to create a new Refund object'', [])"
    by (simp add: Refund_Apply_def use_NewRefund_def)
next
  assume "\<not> on_refund op"
  then show "fst (call e op options) \<noteq> Panicked use_NewRefund"
    using panics_of_execute [of e op options use_NewRefund]
    by (auto simp add: call_execute message_distinct)
next
  assume "\<not> on_refund op" "2 \<le> length options"
  then show "call e op options = (Panicked options_once, [])"
    by (simp add: call_execute execute_many)
next
  assume "length options \<le> 1 \<and> client_of op = None"
  then show "snd (call e op options) = []"
    by (simp add: call_execute log_built built_nil)
next
  assume a: "\<not> on_refund op" "length options \<le> 1 \<and> client_of op = None"
  then have "built e op options = None"
    by (simp add: built_nil)
  from fst_unbuilt [OF this] a
  show "fst (call e op options) = Panicked nil_dereference
          \<or> (\<exists>err. fst (call e op options) = Failed (wrap_of op err))"
    using panics_of_execute [of e op options]
    by (fastforce simp add: call_execute)
qed

theorem C9_witness:
  "Refund_Find (example_env (answer 200 invoice_found)) Refund_zero ''tr_1'' ''re_1''
       [Options_zero, Options_zero] =
     (Panic ''Please use the client.NewRefund() method to create a new Refund object'', [])
   \<and> Refund_Apply (example_env (answer 200 invoice_found)) Refund_zero ''tr_1'' [] =
     (Panic ''Please use the client.NewRefund() method to create a new Refund object'', [])
   \<and> fst (call (example_env (answer 200 invoice_found)) (InvoicesAll \<lparr>Invoices.p = None\<rparr>) [])
       \<noteq> Panicked use_NewRefund
   \<and> call (example_env (answer 200 invoice_found)) (InvoicesAll \<lparr>Invoices.p = None\<rparr>)
       [Options_zero, Options_zero] = (Panicked options_once, [])
   \<and> snd (call (example_env (answer 200 invoice_found)) (InvoicesAll \<lparr>Invoices.p = None\<rparr>) []) = []"
  using C9_refund_nil_client [of Refund_zero "example_env (answer 200 invoice_found)" "''tr_1''"
          "''re_1''" "[Options_zero, Options_zero]" "InvoicesAll \<lparr>Invoices.p = None\<rparr>"]
        C9_refund_nil_client [of Refund_zero "example_env (answer 200 invoice_found)" "''tr_1''"
          "''re_1''" "[]" "InvoicesAll \<lparr>Invoices.p = None\<rparr>"]
  by (simp add: Refund_zero_def)

text \<open>
  C10. For \<open>Transactions.All\<close> and \<open>Transactions.Find\<close>, two lists of options that
  agree, value by value, on \<open>Expand\<close> and \<open>IdempotencyKey\<close> give the same run in the same
  environment: the same requests, byte for byte, and with them the same result. The
  fields \<open>Filter\<close>, \<open>Limit\<close>, \<open>Page\<close>, \<open>EndBefore\<close>, \<open>StartAfter\<close> and \<open>DisableLogging\<close> are
  not read.
\<close>

theorem C10_transactions_read_two_fields:
  assumes "map (\<lambda>opt. (Expand opt, IdempotencyKey opt)) options
             = map (\<lambda>opt. (Expand opt, IdempotencyKey opt)) options'"
  shows "Transactions_All e s options = Transactions_All e s options'
       \<and> Transactions_Find e s transactionID options = Transactions_Find e s transactionID options'"
proof -
  have len: "length options = length options'"
    using assms by (rule map_eq_imp_length_eq)
  consider "options = []" "options' = []"
    | a b where "options = [a]" "options' = [b]"
    | "2 \<le> length options" "2 \<le> length options'"
    using len by (cases options; cases options'; cases "tl options"; cases "tl options'") auto
  then show ?thesis
  proof cases
    case 1
    then show ?thesis by simp
  next
    case 2
    with assms have "Expand a = Expand b" "IdempotencyKey a = IdempotencyKey b"
      by simp_all
    with 2 show ?thesis
      by (simp add: Transactions_All_def Transactions_Find_def pick_one
            cong: sum.case_cong option.case_cong if_cong)
  next
    case 3
    then show ?thesis
      by (simp add: Transactions_All_def Transactions_Find_def pick_many)
  qed
qed

theorem C10_witness:
  "Transactions_All (example_env (answer 200 invoice_found)) example_transactions
       [Options_zero\<lparr>IdempotencyKey := ''k1'', Expand := Some [''customer'']\<rparr>]
     = Transactions_All (example_env (answer 200 invoice_found)) example_transactions
       [\<lparr>IdempotencyKey = ''k1'', Expand = Some [''customer''], Filter = ''f'', Limit = 10,
         Page = 2, EndBefore = ''a'', StartAfter = ''b'', DisableLogging = True\<rparr>]
   \<and> Transactions_Find (example_env (answer 200 invoice_found)) example_transactions ''tr_1''
       [Options_zero\<lparr>IdempotencyKey := ''k1'', Expand := Some [''customer'']\<rparr>]
     = Transactions_Find (example_env (answer 200 invoice_found)) example_transactions ''tr_1''
       [\<lparr>IdempotencyKey = ''k1'', Expand = Some [''customer''], Filter = ''f'', Limit = 10,
         Page = 2, EndBefore = ''a'', StartAfter = ''b'', DisableLogging = True\<rparr>]"
  using C10_transactions_read_two_fields
    [of "[Options_zero\<lparr>IdempotencyKey := ''k1'', Expand := Some [''customer'']\<rparr>]"
        "[\<lparr>IdempotencyKey = ''k1'', Expand = Some [''customer''], Filter = ''f'', Limit = 10,
           Page = 2, EndBefore = ''a'', StartAfter = ''b'', DisableLogging = True\<rparr>]"
        "example_env (answer 200 invoice_found)" example_transactions "''tr_1''"]
  by (simp add: Options_zero_def)

text \<open>
  C8 (as the code has it). An invocation hands at most one request to the
  transport, and the requests do not depend on what the transport answers (there is
  no retry). It hands over exactly one request when, and only when, there is at most
  one \<open>Options\<close> value, the resource argument is not nil, marshaling the body and
  \<open>http.NewRequest\<close> succeed, and the client pointer is not nil.
\<close>

theorem C8_at_most_one_request:
  "length (snd (call e op options)) \<le> 1
   \<and> snd (call (e\<lparr>Do := d\<rparr>) op options) = snd (call e op options)
   \<and> (length (snd (call e op options)) = 1 \<longleftrightarrow>
        (\<exists>opt entries path body req.
            pick_options options = Return opt
          \<and> fields_of op opt = Some entries
          \<and> path_with QueryEscape op = Some path
          \<and> json_Marshal entries = Inr body
          \<and> http_NewRequest e (method_of op) (Host e @ path) body = Inr req)
        \<and> client_of op \<noteq> None)"
proof (intro conjI)
  show "length (snd (call e op options)) \<le> 1"
    by (simp add: call_execute log_built split: option.split)
  show "snd (call (e\<lparr>Do := d\<rparr>) op options) = snd (call e op options)"
    by (simp add: call_execute log_built built_Do)
  have "length (snd (call e op options)) = 1 \<longleftrightarrow> (\<exists>r. built e op options = Some r)"
    by (simp add: call_execute log_built split: option.split)
  also have "\<dots> \<longleftrightarrow>
        (\<exists>opt entries path body req.
            pick_options options = Return opt
          \<and> fields_of op opt = Some entries
          \<and> path_with QueryEscape op = Some path
          \<and> json_Marshal entries = Inr body
          \<and> http_NewRequest e (method_of op) (Host e @ path) body = Inr req)
        \<and> client_of op \<noteq> None"
    unfolding built_Some by blast
  finally show "length (snd (call e op options)) = 1 \<longleftrightarrow>
        (\<exists>opt entries path body req.
            pick_options options = Return opt
          \<and> fields_of op opt = Some entries
          \<and> path_with QueryEscape op = Some path
          \<and> json_Marshal entries = Inr body
          \<and> http_NewRequest e (method_of op) (Host e @ path) body = Inr req)
        \<and> client_of op \<noteq> None" .
qed

theorem C8_witness:
  "length (snd (call (example_env (answer 200 invoice_found))
                  (InvoicesFind example_invoices ''inv_123'') [])) = 1
   \<and> snd (call (example_env (answer 402 invalid_currency))
                  (InvoicesFind example_invoices ''inv_123'') [])
     = snd (call (example_env (answer 200 invoice_found))
                  (InvoicesFind example_invoices ''inv_123'') [])"
  using C8_at_most_one_request [of "example_env (answer 200 invoice_found)"
          "InvoicesFind example_invoices ''inv_123''" "[]" "answer 402 invalid_currency"]
  by (simp add: example_env_def example_invoices_def pick_none http_NewRequest_def
        json_Marshal_def expand_filter_def)

text \<open>
  With no options on an \<open>Invoices\<close> whose client is nil, the body is marshaled and
  \<open>http.NewRequest\<close> returns the request, yet \<open>Invoices.All\<close> issues no request: it
  panics on \<open>s.p.APIVersion\<close>.
\<close>

theorem C8_counterexample:
  \<open>json_Marshal [(''expand'', GoStrings (Expand Options_zero)),
                 (''filter'', GoString (Filter Options_zero))]
     = Inr ''{"expand":null,"filter":""}''
   \<and> http_NewRequest (example_env (answer 200 invoice_found)) ''GET''
        (Host (example_env (answer 200 invoice_found)) @ ''/invoices'')
        ''{"expand":null,"filter":""}''
     = Inr \<lparr>Method = ''GET'', URL = ''https://api.processout.com/invoices'', Header = Map.empty,
            BasicAuth = None, Body = ''{"expand":null,"filter":""}''\<rparr>
   \<and> Invoices_All (example_env (answer 200 invoice_found)) \<lparr>Invoices.p = None\<rparr> []
     = (Panic nil_dereference, [])\<close>
  by (simp add: Invoices_All_def pick_none body_zero Options_zero_def http_NewRequest_def
        example_env_def)

text \<open>
  C3 (as the code has it). Every request that an operation hands to the transport
  carries \<open>Accept: application/json\<close> and the client's API version under
  \<open>API-Version\<close>, and carries \<open>Idempotency-Key\<close>, with the key as its value, exactly when
  the key of the options in force (the one supplied, or the zero \<open>Options\<close>) is not
  empty. The operations of \<open>Invoices\<close>, \<open>TailoredInvoices\<close> and \<open>Refund\<close> also set
  \<open>Content-Type: application/json\<close>, and \<open>Disable-Logging: true\<close> exactly when
  \<open>DisableLogging\<close> is set. \<open>Transactions.All\<close> and \<open>Transactions.Find\<close> set neither
  \<open>Content-Type\<close> nor \<open>Disable-Logging\<close>, whatever the options. Every request also
  carries the \<open>Authorization\<close> header that \<open>SetBasicAuth\<close> writes, \<open>Basic\<close> followed by the
  base64 encoding of the project's identifier, a colon and the project's secret. No
  other header is set.
\<close>

theorem C3_request_headers:
  assumes "req \<in> set (snd (call e op options))"
  shows "\<exists>c opt. client_of op = Some c \<and> pick_options options = Return opt
           \<and> Header req ''Accept'' = Some ''application/json''
           \<and> Header req ''API-Version'' = Some (APIVersion c)
           \<and> Header req ''Idempotency-Key'' =
                (if IdempotencyKey opt \<noteq> '''' then Some (IdempotencyKey opt) else None)
           \<and> Header req ''Content-Type'' =
                (if on_transactions op then None else Some ''application/json'')
           \<and> Header req ''Disable-Logging'' =
                (if DisableLogging opt \<and> \<not> on_transactions op then Some ''true'' else None)
           \<and> Header req ''Authorization'' =
                Some (''Basic '' @ basicAuth (projectID c) (projectSecret c))
           \<and> dom (Header req) \<subseteq> {''Accept'', ''API-Version'', ''Idempotency-Key'',
                                   ''Content-Type'', ''Disable-Logging'', ''Authorization''}"
proof -
  from assms have "built e op options = Some req"
    by (simp add: call_execute log_built split: option.splits)
  then obtain opt entries path body req0 c where
      opt: "pick_options options = Return opt"
    and new: "http_NewRequest e (method_of op) (Host e @ path) body = Inr req0"
    and c: "client_of op = Some c"
    and req: "req = headers_of op c opt req0"
    unfolding built_Some by blast
  note empty = http_NewRequest_Header [OF new]
  have "Header req ''Accept'' = Some ''application/json''"
    and "Header req ''API-Version'' = Some (APIVersion c)"
    and "Header req ''Idempotency-Key'' =
                (if IdempotencyKey opt \<noteq> '''' then Some (IdempotencyKey opt) else None)"
    and "Header req ''Content-Type'' =
                (if on_transactions op then None else Some ''application/json'')"
    and "Header req ''Disable-Logging'' =
                (if DisableLogging opt \<and> \<not> on_transactions op then Some ''true'' else None)"
    and "Header req ''Authorization'' =
                Some (''Basic '' @ basicAuth (projectID c) (projectSecret c))"
    and "dom (Header req) \<subseteq> {''Accept'', ''API-Version'', ''Idempotency-Key'',
                                   ''Content-Type'', ''Disable-Logging'', ''Authorization''}"
    by (auto simp add: req headers_of_def headers_full_Header [OF empty]
          headers_short_Header [OF empty] dom_def split: if_splits)
  with opt c show ?thesis by blast
qed

theorem C3_witness:
  \<open>map (\<lambda>req. map (Header req) [''Accept'', ''API-Version'', ''Idempotency-Key'',
                                 ''Content-Type'', ''Disable-Logging'', ''Authorization''])
     (snd (call (example_env (answer 200 invoice_found))
             (InvoicesFind example_invoices ''inv_123'')
             [Options_zero\<lparr>IdempotencyKey := ''k1'', DisableLogging := True\<rparr>]))
   = [[Some ''application/json'', Some ''1.3.0.0'', Some ''k1'',
       Some ''application/json'', Some ''true'', Some ''Basic cHJval8xOmtleV8x'']]\<close>
proof -
  have log: \<open>snd (call (example_env (answer 200 invoice_found))
             (InvoicesFind example_invoices ''inv_123'')
             [Options_zero\<lparr>IdempotencyKey := ''k1'', DisableLogging := True\<rparr>])
     = [\<lparr>Method = ''GET'', URL = ''https://api.processout.com/invoices/inv_123'',
         Header = [''Content-Type'' \<mapsto> ''application/json'',
                   ''API-Version'' \<mapsto> ''1.3.0.0'',
                   ''Accept'' \<mapsto> ''application/json'',
                   ''Idempotency-Key'' \<mapsto> ''k1'',
                   ''Disable-Logging'' \<mapsto> ''true'',
                   ''Authorization'' \<mapsto> ''Basic cHJval8xOmtleV8x''],
         BasicAuth = Some (''proj_1'', ''key_1''),
         Body = ''{"expand":null,"filter":""}''\<rparr>]\<close>
    unfolding call_execute log_built
    by (simp add: built_def pick_one body_zero http_NewRequest_def escape_inv_123
          example_env_def example_invoices_def example_client_def basicAuth_example expand_filter_def
          headers_of_def headers_full_def Header_Set_def SetBasicAuth_def Options_zero_def)
  show ?thesis
    using C3_request_headers [of
          \<open>\<lparr>Method = ''GET'', URL = ''https://api.processout.com/invoices/inv_123'',
             Header = [''Content-Type'' \<mapsto> ''application/json'',
                       ''API-Version'' \<mapsto> ''1.3.0.0'',
                       ''Accept'' \<mapsto> ''application/json'',
                       ''Idempotency-Key'' \<mapsto> ''k1'',
                       ''Disable-Logging'' \<mapsto> ''true'',
                       ''Authorization'' \<mapsto> ''Basic cHJval8xOmtleV8x''],
             BasicAuth = Some (''proj_1'', ''key_1''),
             Body = ''{"expand":null,"filter":""}''\<rparr>\<close>
          "example_env (answer 200 invoice_found)"
          "InvoicesFind example_invoices ''inv_123''"
          "[Options_zero\<lparr>IdempotencyKey := ''k1'', DisableLogging := True\<rparr>]"]
    unfolding log by simp
qed

text \<open>
  The request of \<open>Transactions.All\<close> with \<open>DisableLogging\<close> set has neither a
  \<open>Content-Type\<close> nor a \<open>Disable-Logging\<close> header.
\<close>

theorem C3_counterexample:
  "map (\<lambda>req. (Header req ''Content-Type'', Header req ''Disable-Logging''))
     (snd (Transactions_All (example_env (answer 200 invoice_found)) example_transactions
             [Options_zero\<lparr>DisableLogging := True\<rparr>]))
   = [(None, None)]"
  by (simp add: Transactions_All_def pick_one json_Marshal_def http_NewRequest_def
        example_env_def example_transactions_def Header_Set_def SetBasicAuth_def Let_def
        Options_zero_def answer_def
      split: sum.splits)

text \<open>
  C7 (as the code has it). The URL of every request is the host followed by the
  path template of the operation, in which each caller-supplied identifier is
  written by \<open>url.QueryEscape\<close>. \<open>QueryEscape\<close> writes a space as \<open>+\<close> and every other byte
  that is not a letter, a digit or one of \<open>- _ . ~\<close> as \<open>%\<close> with two hexadecimal
  digits: it is percent-encoding except on spaces. The escaped identifier holds only
  letters, digits, \<open>- _ . ~\<close>, \<open>%\<close> and \<open>+\<close>, so no \<open>/\<close>, \<open>?\<close>, \<open>#\<close> or space: it stays one
  segment of the path.
\<close>

theorem C7_identifier_escaped:
  "(req \<in> set (snd (call e op options)) \<longrightarrow>
      (\<exists>path. path_with QueryEscape op = Some path \<and> Request.URL req = Host e @ path))
   \<and> QueryEscape x = concat (map (\<lambda>c. if c = CHR '' '' then ''+'' else percent_byte c) x)
   \<and> (\<forall>ch \<in> set (QueryEscape x). \<not> shouldEscape ch \<or> ch = CHR ''%'' \<or> ch = CHR ''+'')
   \<and> CHR ''/'' \<notin> set (QueryEscape x) \<and> CHR ''?'' \<notin> set (QueryEscape x)
   \<and> CHR ''#'' \<notin> set (QueryEscape x) \<and> CHR '' '' \<notin> set (QueryEscape x)"
proof (intro conjI impI)
  assume "req \<in> set (snd (call e op options))"
  then have "built e op options = Some req"
    by (simp add: call_execute log_built split: option.splits)
  then obtain opt entries path body req0 c where
      path: "path_with QueryEscape op = Some path"
    and new: "http_NewRequest e (method_of op) (Host e @ path) body = Inr req0"
    and req: "req = headers_of op c opt req0"
    unfolding built_Some by blast
  from new have "Request.URL req0 = Host e @ path"
    by (auto simp add: http_NewRequest_def split: option.splits)
  then have "Request.URL req = Host e @ path"
    by (simp add: req headers_of_def headers_full_def headers_short_def Header_Set_def
          SetBasicAuth_def Let_def)
  with path show "\<exists>path. path_with QueryEscape op = Some path \<and> Request.URL req = Host e @ path"
    by simp
next
  show "QueryEscape x = concat (map (\<lambda>c. if c = CHR '' '' then ''+'' else percent_byte c) x)"
    by (simp only: QueryEscape_def escape_byte_percent)
next
  show "\<forall>ch \<in> set (QueryEscape x). \<not> shouldEscape ch \<or> ch = CHR ''%'' \<or> ch = CHR ''+''"
    using QueryEscape_kept by blast
next
  show "CHR ''/'' \<notin> set (QueryEscape x)"
    using QueryEscape_kept [of "CHR ''/''" x] by (auto simp add: shouldEscape_def)
next
  show "CHR ''?'' \<notin> set (QueryEscape x)"
    using QueryEscape_kept [of "CHR ''?''" x] by (auto simp add: shouldEscape_def)
next
  show "CHR ''#'' \<notin> set (QueryEscape x)"
    using QueryEscape_kept [of "CHR ''#''" x] by (auto simp add: shouldEscape_def)
next
  show "CHR '' '' \<notin> set (QueryEscape x)"
    using QueryEscape_kept [of "CHR '' ''" x] by (auto simp add: shouldEscape_def)
qed

theorem C7_witness:
  "map Request.URL (snd (call (example_env (answer 200 invoice_found))
                           (InvoicesFind example_invoices ''a/b?c#d e'') []))
     = [''https://api.processout.com/invoices/a%2Fb%3Fc%23d+e'']
   \<and> CHR ''/'' \<notin> set (QueryEscape ''a/b?c#d e'')"
proof -
  have esc: "QueryEscape ''a/b?c#d e'' = ''a%2Fb%3Fc%23d+e''"
    by (simp add: QueryEscape_def escape_byte_def shouldEscape_def upperhex_def)
  have log: \<open>snd (call (example_env (answer 200 invoice_found))
             (InvoicesFind example_invoices ''a/b?c#d e'') [])
     = [\<lparr>Method = ''GET'', URL = ''https://api.processout.com/invoices/a%2Fb%3Fc%23d+e'',
         Header = [''Content-Type'' \<mapsto> ''application/json'',
                   ''API-Version'' \<mapsto> ''1.3.0.0'',
                   ''Accept'' \<mapsto> ''application/json'',
                   ''Authorization'' \<mapsto> ''Basic cHJval8xOmtleV8x''],
         BasicAuth = Some (''proj_1'', ''key_1''),
         Body = ''{"expand":null,"filter":""}''\<rparr>]\<close>
    unfolding call_execute log_built
    by (simp add: built_def pick_none body_zero http_NewRequest_def esc
          example_env_def example_invoices_def example_client_def basicAuth_example expand_filter_def
          headers_of_def headers_full_def Header_Set_def SetBasicAuth_def Options_zero_def)
  note escaped = C7_identifier_escaped [of
          \<open>\<lparr>Method = ''GET'', URL = ''https://api.processout.com/invoices/a%2Fb%3Fc%23d+e'',
             Header = [''Content-Type'' \<mapsto> ''application/json'',
                       ''API-Version'' \<mapsto> ''1.3.0.0'',
                       ''Accept'' \<mapsto> ''application/json'',
                       ''Authorization'' \<mapsto> ''Basic cHJval8xOmtleV8x''],
             BasicAuth = Some (''proj_1'', ''key_1''),
             Body = ''{"expand":null,"filter":""}''\<rparr>\<close>
          "example_env (answer 200 invoice_found)"
          "InvoicesFind example_invoices ''a/b?c#d e''" "[]" "''a/b?c#d e''"]
  from escaped have "CHR ''/'' \<notin> set (QueryEscape ''a/b?c#d e'')"
    by blast
  then show ?thesis
    unfolding log by simp
qed

text \<open>
  The identifier \<open>a b\<close> is written \<open>a+b\<close> in the path of \<open>Invoices.Find\<close>;
  percent-encoding writes it \<open>a%20b\<close>.
\<close>

theorem C7_counterexample:
  "map Request.URL (snd (Invoices_Find (example_env (answer 200 invoice_found)) example_invoices
                           ''a b'' []))
     = [''https://api.processout.com/invoices/a+b'']
   \<and> percent_encode ''a b'' = ''a%20b''
   \<and> QueryEscape ''a b'' \<noteq> percent_encode ''a b''"
  by (simp add: Invoices_Find_def pick_none json_Marshal_def http_NewRequest_def
        QueryEscape_def escape_byte_def percent_encode_def percent_byte_def shouldEscape_def
        upperhex_def example_env_def example_invoices_def Header_Set_def SetBasicAuth_def Let_def
        answer_def
      split: sum.splits)

text \<open>
  C1 (as the code has it). When the request of an operation is answered and the
  envelope decoded from the body has \<open>success\<close> false, the operation returns an error
  and no payload. For the operations of \<open>Invoices\<close> and \<open>TailoredInvoices\<close> the error
  is an \<open>Error\<close> whose code is the \<open>error_type\<close> of the response and whose message is
  its \<open>message\<close>; for \<open>Refund.Find\<close> and \<open>Refund.Apply\<close> it is the \<open>errors\<close> package's
  error made from the status code, the \<open>error_type\<close> and the \<open>message\<close>. For
  \<open>Transactions.All\<close> and \<open>Transactions.Find\<close> the envelope has no code (their
  \<open>Response\<close> declares no field for \<open>error_type\<close>) and the error is the plain error
  of the \<open>message\<close> alone.
\<close>

theorem C1_failed_envelope:
  assumes "snd (call e op options) = [req]"
      and "Do e req = Inr res"
      and "decoded e op (ResponseBody res) = Inr v"
      and "\<not> success v"
  shows "(on_transactions op \<longrightarrow>
            error_type v = None
          \<and> fst (call e op options) = Failed (PlainError (errorString (message v))))
       \<and> (on_refund op \<longrightarrow>
            (\<exists>code. error_type v = Some code
               \<and> fst (call e op options) =
                   Failed (PackageError (errors_NewFromResponse (StatusCode res) code (message v)))))
       \<and> (\<not> on_transactions op \<and> \<not> on_refund op \<longrightarrow>
            (\<exists>code. error_type v = Some code
               \<and> fst (call e op options) =
                   Failed (LibraryError \<lparr>Err = errorString (message v), Error.Code = code\<rparr>)))"
proof -
  have out: "fst (call e op options) = Failed (api_failure op (StatusCode res) v)"
    using fst_answered [of e op options req res v] assms by (simp add: call_execute)
  have code: "(error_type v = None) = on_transactions op"
    using assms(3) by (rule decoded_error_type)
  have "on_refund op \<Longrightarrow> \<not> on_transactions op"
    by (cases op) simp_all
  with out code show ?thesis
    by (cases "error_type v") (auto simp add: api_failure_def)
qed

theorem C1_witness:
  "fst (call (example_env (answer 402 invalid_currency))
          (InvoicesFind example_invoices ''inv_123'') [])
     = Failed (LibraryError \<lparr>Err = errorString ''invalid currency'',
                             Error.Code = ''invoice.invalid_currency''\<rparr>)"
proof -
  have answered: \<open>Do (example_env (answer 402 invalid_currency))
           \<lparr>Method = ''GET'', URL = ''https://api.processout.com/invoices/inv_123'',
             Header = [''Content-Type'' \<mapsto> ''application/json'',
                       ''API-Version'' \<mapsto> ''1.3.0.0'',
                       ''Accept'' \<mapsto> ''application/json'',
                       ''Authorization'' \<mapsto> ''Basic cHJval8xOmtleV8x''],
             BasicAuth = Some (''proj_1'', ''key_1''),
             Body = ''{"expand":null,"filter":""}''\<rparr>
         = Inr \<lparr>StatusCode = 402, ResponseBody = Inr invalid_currency\<rparr>\<close>
    by (simp add: example_env_def answer_def)
  show ?thesis
    using C1_failed_envelope [OF find_request answered decoded_invalid_currency]
    by simp
qed

text \<open>
  \<open>Transactions.Find\<close> on the response
  \<open>{"success":false,"message":"invalid currency","error_type":"invoice.invalid_currency"}\<close>
  returns the plain error of the message: the \<open>error_type\<close> of the response is not in
  what the call returns.
\<close>

theorem C1_counterexample:
  "fst (Transactions_Find (example_env (answer 402 invalid_currency)) example_transactions
          ''tr_1'' [])
     = Return (Inl (errorString ''invalid currency''))"
  by (simp add: Transactions_Find_def pick_none json_Marshal_def http_NewRequest_def
        example_env_def example_transactions_def answer_def Let_def
        Decode_def decode_struct_def invalid_currency_def Reply_field_def Reply_zero_def
        names_def upper_def store_def)

text \<open>
  C4. When the request of an operation is answered and an envelope decodes from the
  body, the success flag of the envelope alone decides between a payload and an
  error. For two runs that differ in the transport only and whose responses decode
  to the same envelope, with any two status codes: if the flag is true both runs
  return the payload of the envelope; if it is false both return an error, the same
  error except in \<open>Refund.Find\<close> and \<open>Refund.Apply\<close>, whose error records the status
  code.
\<close>

theorem C4_status_code_ignored:
  assumes "snd (call e op options) = [req]"
      and "Do e req = Inr res"
      and "d req = Inr res'"
      and "decoded e op (ResponseBody res) = Inr v"
      and "decoded e op (ResponseBody res') = Inr v"
  shows "(success v \<longrightarrow>
            fst (call e op options) = Succeeded (resource v)
          \<and> fst (call (e\<lparr>Do := d\<rparr>) op options) = Succeeded (resource v))
       \<and> (\<not> success v \<longrightarrow>
            (\<exists>f f'. fst (call e op options) = Failed f
                 \<and> fst (call (e\<lparr>Do := d\<rparr>) op options) = Failed f'
                 \<and> (\<not> on_refund op \<longrightarrow> f = f')))"
proof -
  have one: "fst (call e op options) =
           (if success v then Succeeded (resource v)
            else Failed (api_failure op (StatusCode res) v))"
    using fst_answered [of e op options req res v] assms by (simp add: call_execute)
  have log: "snd (execute (e\<lparr>Do := d\<rparr>) op options) = [req]"
    using assms(1) by (simp add: call_execute log_built built_Do)
  have two: "fst (call (e\<lparr>Do := d\<rparr>) op options) =
           (if success v then Succeeded (resource v)
            else Failed (api_failure op (StatusCode res') v))"
    using fst_answered [of "e\<lparr>Do := d\<rparr>" op options req res' v] log assms(3,5)
    by (simp add: call_execute decoded_Do)
  have "api_failure op (StatusCode res) v = api_failure op (StatusCode res') v"
    if "\<not> on_refund op"
    using that by (simp add: api_failure_def Let_def)
  with one two show ?thesis
    by auto
qed

theorem C4_witness:
  "fst (call (example_env (answer 200 invoice_found))
          (InvoicesFind example_invoices ''inv_123'') [])
     = Succeeded (InvoicePayload (Invoice_zero\<lparr>Invoice.ID := ''inv_123'', Invoice.Name := ''Test''\<rparr>))
   \<and> fst (call ((example_env (answer 200 invoice_found))\<lparr>Do := answer 404 invoice_found\<rparr>)
          (InvoicesFind example_invoices ''inv_123'') [])
     = Succeeded (InvoicePayload (Invoice_zero\<lparr>Invoice.ID := ''inv_123'', Invoice.Name := ''Test''\<rparr>))"
proof -
  have one: \<open>Do (example_env (answer 200 invoice_found))
           \<lparr>Method = ''GET'', URL = ''https://api.processout.com/invoices/inv_123'',
             Header = [''Content-Type'' \<mapsto> ''application/json'',
                       ''API-Version'' \<mapsto> ''1.3.0.0'',
                       ''Accept'' \<mapsto> ''application/json'',
                       ''Authorization'' \<mapsto> ''Basic cHJval8xOmtleV8x''],
             BasicAuth = Some (''proj_1'', ''key_1''),
             Body = ''{"expand":null,"filter":""}''\<rparr>
         = Inr \<lparr>StatusCode = 200, ResponseBody = Inr invoice_found\<rparr>\<close>
    by (simp add: example_env_def answer_def)
  have two: \<open>answer 404 invoice_found
           \<lparr>Method = ''GET'', URL = ''https://api.processout.com/invoices/inv_123'',
             Header = [''Content-Type'' \<mapsto> ''application/json'',
                       ''API-Version'' \<mapsto> ''1.3.0.0'',
                       ''Accept'' \<mapsto> ''application/json'',
                       ''Authorization'' \<mapsto> ''Basic cHJval8xOmtleV8x''],
             BasicAuth = Some (''proj_1'', ''key_1''),
             Body = ''{"expand":null,"filter":""}''\<rparr>
         = Inr \<lparr>StatusCode = 404, ResponseBody = Inr invoice_found\<rparr>\<close>
    by (simp add: answer_def)
  show ?thesis
    using C4_status_code_ignored
      [where d = "answer 404 invoice_found",
       OF find_request one two decoded_invoice_found decoded_invoice_found]
    by simp
qed

end
